theory Spec2Isabelle
  imports Main
begin

section \<open>Strings\<close>

text \<open>
  A TypeScript string is a sequence of code units; it is modelled as a \<open>string\<close>, a list
  of \<open>char\<close>, so the model covers the code units below 256.  The functions of this section
  are the library functions of the language that the sources call on strings:
  \<^verbatim>\<open>trim\<close>, \<^verbatim>\<open>startsWith\<close> and \<^verbatim>\<open>split\<close>.
\<close>

text \<open>
  The code units below 256 that \<^verbatim>\<open>String.prototype.trim\<close> removes: TAB, LF, VT, FF, CR,
  SPACE and NO-BREAK SPACE.
\<close>

definition isWhiteSpace :: "char \<Rightarrow> bool" where
  "isWhiteSpace c =
     (c = CHR 0x09 \<or> c = CHR 0x0A \<or> c = CHR 0x0B \<or> c = CHR 0x0C \<or> c = CHR 0x0D
      \<or> c = CHR 0x20 \<or> c = CHR 0xA0)"

definition trim :: "string \<Rightarrow> string" where
  "trim s = rev (dropWhile isWhiteSpace (rev (dropWhile isWhiteSpace s)))"

definition startsWith :: "string \<Rightarrow> string \<Rightarrow> bool" where
  "startsWith s p = (take (length p) s = p)"

text \<open>
  \<^verbatim>\<open>s.split(sep)\<close> for a separator of one code unit: the pieces between the occurrences of
  the separator, in order; a string without the separator is its own single piece.
\<close>

fun str_split :: "char \<Rightarrow> string \<Rightarrow> string list" where
  "str_split sep [] = [[]]"
| "str_split sep (c # cs) =
     (if c = sep then [] # str_split sep cs
      else (case str_split sep cs of
              [] \<Rightarrow> [[c]]
            | p # ps \<Rightarrow> (c # p) # ps))"

text \<open>
  \<^verbatim>\<open>xs[i]\<close>: reading an array out of range gives \<^verbatim>\<open>undefined\<close>, here \<open>None\<close>.
\<close>

definition index :: "'a list \<Rightarrow> nat \<Rightarrow> 'a option" where
  "index xs i = (if i < length xs then Some (xs ! i) else None)"

section \<open>Errors\<close>

text \<open>
  A thrown value, or the reason of a rejected promise.  \<open>Error\<close> carries the message of
  \<^verbatim>\<open>new Error(message)\<close>; \<open>TypeError\<close> is what calling a method on \<^verbatim>\<open>undefined\<close> throws.
\<close>

datatype error = Error string | TypeError

text \<open>The error of \<^verbatim>\<open>bazelDebugTestTarget\<close>, under the name the specification gives it.\<close>

definition InvalidInvocation :: error where
  "InvalidInvocation = Error ''bug: invalid number of targets passed to bazelDebugTestTarget''"

section \<open>Data model\<close>

record BazelWorkspaceInfo =
  bazelWorkspacePath :: string
  workspaceFolder :: string

text \<open>
  \<^verbatim>\<open>blaze_query.ITarget\<close>, with the two fields of \<^verbatim>\<open>target.rule\<close> that the sources read.
\<close>

record ITarget =
  rule_name :: string
  rule_ruleClass :: string

text \<open>
  The two tree item classes, each a constructor with the parameters of the class's
  constructor.  \<open>'res\<close> stands for the class \<^verbatim>\<open>Resources\<close> (icon paths), which the functions
  modelled here only pass on.
\<close>

datatype 'res BazelGTestTreeItem =
  BazelGTestTreeItem (gtestResources: 'res) (gtestWorkspaceInfo: BazelWorkspaceInfo)
    (gtestTarget: ITarget) (testName: string) (comment: "string option")

datatype 'res BazelTargetTreeItem =
  BazelTargetTreeItem (resources: 'res) (itemWorkspaceInfo: BazelWorkspaceInfo)
    (target: ITarget)

section \<open>The test-list parser\<close>

text \<open>
  \<^verbatim>\<open>BazelTargetTreeItem.parseGtestList\<close> (bazel_target_tree_item.ts).  The two local variables
  that the callback of \<^verbatim>\<open>forEach\<close> updates are the parser's state.
\<close>

record 'res gtest_vars =
  currentTestGroup :: string
  allTests :: "'res BazelGTestTreeItem list"

text \<open>
  \<^verbatim>\<open>xs.forEach(f)\<close> for a callback that updates state: the elements in order; a callback
  that throws ends the loop with its error.
\<close>

fun forEach :: "('a \<Rightarrow> 's \<Rightarrow> error + 's) \<Rightarrow> 'a list \<Rightarrow> 's \<Rightarrow> error + 's" where
  "forEach f [] s = Inr s"
| "forEach f (x # xs) s =
     (case f x s of
        Inl e \<Rightarrow> Inl e
      | Inr s' \<Rightarrow> forEach f xs s')"

text \<open>
  The callback, for one line.  \<^verbatim>\<open>split[0].trim()\<close> and \<^verbatim>\<open>split[1].trim()\<close> throw a
  \<^verbatim>\<open>TypeError\<close> when the element read is \<^verbatim>\<open>undefined\<close>.
\<close>

definition parseGtestLine ::
  "'res BazelTargetTreeItem \<Rightarrow> string \<Rightarrow> 'res gtest_vars \<Rightarrow> error + 'res gtest_vars" where
  "parseGtestLine this line vars =
     (if startsWith line ''  '' then
        (let split = str_split CHR ''#'' line in
         if length split = 2 then
           (case index split 0 of
              None \<Rightarrow> Inl TypeError
            | Some split0 \<Rightarrow>
                (case index split 1 of
                   None \<Rightarrow> Inl TypeError
                 | Some split1 \<Rightarrow>
                     Inr (vars\<lparr>allTests := allTests vars @
                       [BazelGTestTreeItem (resources this) (itemWorkspaceInfo this) (target this)
                          (currentTestGroup vars @ trim split0) (Some (trim split1))]\<rparr>)))
         else
           (case index split 0 of
              None \<Rightarrow> Inl TypeError
            | Some split0 \<Rightarrow>
                Inr (vars\<lparr>allTests := allTests vars @
                  [BazelGTestTreeItem (resources this) (itemWorkspaceInfo this) (target this)
                     (currentTestGroup vars @ trim split0) None]\<rparr>)))
      else Inr (vars\<lparr>currentTestGroup := trim line\<rparr>))"

definition parseGtestList ::
  "'res BazelTargetTreeItem \<Rightarrow> string \<Rightarrow> error + 'res BazelGTestTreeItem list" where
  "parseGtestList this input =
     (case forEach (parseGtestLine this) (str_split CHR 0x0A input)
             \<lparr>currentTestGroup = [], allTests = []\<rparr> of
        Inl e \<Rightarrow> Inl e
      | Inr vars \<Rightarrow> Inr (allTests vars))"

section \<open>Command options in a store\<close>

text \<open>
  \<^verbatim>\<open>IBazelCommandOptions\<close> values are objects whose \<^verbatim>\<open>options\<close> and \<^verbatim>\<open>targets\<close> are arrays.
  Objects and arrays are mutable and may be shared, so both live in a store and are
  named by references.  \<^verbatim>\<open>workspaceInfo\<close> is never written by the sources and is kept by
  value.
\<close>

type_synonym ref = nat

record IBazelCommandOptions =
  options :: ref
  targets :: ref
  workspaceInfo :: BazelWorkspaceInfo

text \<open>
  Modelled from the spec: \<^verbatim>\<open>createBazelTask\<close> (bazel/tasks.ts) is not among the sources.
  The dispatcher "builds one external command line from options deterministically" and does
  not write to the options; the task it creates is recorded here as the command verb and
  the contents that the options object has when the task is created.
\<close>

record Task =
  command :: string
  taskOptions :: "string list"
  taskTargets :: "string list"
  taskWorkspaceInfo :: BazelWorkspaceInfo

text \<open>
  The literal of type \<^verbatim>\<open>vscode.DebugConfiguration\<close> in \<^verbatim>\<open>bazelDebugTestTarget\<close>.
  \<open>program\<close> is \<open>None\<close> when \<^verbatim>\<open>outputs[0]\<close> is \<^verbatim>\<open>undefined\<close>; \<open>logging_programOutput\<close> is the one
  field of \<^verbatim>\<open>logging\<close>; \<open>sourceMap\<close> is an object used as a dictionary.
\<close>

record DebugConfiguration =
  name :: string
  type :: string
  request :: string
  program :: "string option"
  args :: "string list"
  cwd :: string
  breakpointMode :: string
  sourceMap :: "string \<rightharpoonup> string"
  logging_programOutput :: bool
  internalConsoleOptions :: string
  externalConsole :: bool

text \<open>
  What a quick pick is filled from: \<^verbatim>\<open>queryQuickPickTargets({ query })\<close> or
  \<^verbatim>\<open>queryQuickPickPackage({})\<close>.
\<close>

datatype quickPickItems = queryQuickPickTargets string | queryQuickPickPackage

text \<open>
  The calls to the editor and to the build tool, in the order they are made:
  \<^verbatim>\<open>vscode.window.showQuickPick\<close>, \<^verbatim>\<open>vscode.tasks.executeTask\<close>,
  \<^verbatim>\<open>new BazelCQuery(executable, workspacePath).queryOutputs(target, options)\<close> and
  \<^verbatim>\<open>vscode.debug.startDebugging(folder, config)\<close>.
\<close>

datatype event =
  ShowQuickPick quickPickItems
| ExecuteTask Task
| QueryOutputs string string string "string list option"
| StartDebugging string DebugConfiguration

record state =
  arrays :: "ref \<Rightarrow> string list"
  objects :: "ref \<Rightarrow> IBazelCommandOptions"
  fresh :: ref
  trace :: "event list"

text \<open>
  \<^verbatim>\<open>IBazelCommandAdapter\<close>: its one method \<^verbatim>\<open>getBazelCommandOptions()\<close> returns a reference
  to an options object, and may allocate it.
\<close>

type_synonym IBazelCommandAdapter = "state \<Rightarrow> ref \<times> state"

text \<open>An array literal, or the result of \<^verbatim>\<open>map\<close>: a new array.\<close>

definition newArray :: "string list \<Rightarrow> state \<Rightarrow> ref \<times> state" where
  "newArray xs st =
     (fresh st, st\<lparr>arrays := (arrays st)(fresh st := xs), fresh := Suc (fresh st)\<rparr>)"

text \<open>An object literal: a new object.\<close>

definition newObject :: "IBazelCommandOptions \<Rightarrow> state \<Rightarrow> ref \<times> state" where
  "newObject obj st =
     (fresh st, st\<lparr>objects := (objects st)(fresh st := obj), fresh := Suc (fresh st)\<rparr>)"

text \<open>\<^verbatim>\<open>obj.options = r\<close>: the field of an existing object is overwritten.\<close>

definition setOptions :: "ref \<Rightarrow> ref \<Rightarrow> state \<Rightarrow> state" where
  "setOptions obj r st = st\<lparr>objects := (objects st)(obj := (objects st obj)\<lparr>options := r\<rparr>)\<rparr>"

text \<open>\<^verbatim>\<open>a.push(...xs)\<close>: an existing array grows in place.\<close>

definition push :: "ref \<Rightarrow> string list \<Rightarrow> state \<Rightarrow> state" where
  "push a xs st = st\<lparr>arrays := (arrays st)(a := arrays st a @ xs)\<rparr>"

definition emit :: "event \<Rightarrow> state \<Rightarrow> state" where
  "emit ev st = st\<lparr>trace := trace st @ [ev]\<rparr>"

definition createBazelTask :: "string \<Rightarrow> ref \<Rightarrow> state \<Rightarrow> Task" where
  "createBazelTask cmd obj st =
     \<lparr>command = cmd,
      taskOptions = arrays st (options (objects st obj)),
      taskTargets = arrays st (targets (objects st obj)),
      taskWorkspaceInfo = workspaceInfo (objects st obj)\<rparr>"

text \<open>
  \<^verbatim>\<open>vscode.tasks.executeTask(task)\<close> submits the task and gives its \<^verbatim>\<open>TaskExecution\<close>, which
  the sources use by identity only: it is the position of the submission in the trace.
\<close>

definition executeTask :: "Task \<Rightarrow> state \<Rightarrow> nat \<times> state" where
  "executeTask task st = (length (trace st), emit (ExecuteTask task) st)"

text \<open>The two adapters of the sources: a target of the tree, and one test of a test binary.\<close>

definition BazelTargetTreeItem_getBazelCommandOptions ::
  "'res BazelTargetTreeItem \<Rightarrow> IBazelCommandAdapter" where
  "BazelTargetTreeItem_getBazelCommandOptions this st =
     (let (os, st1) = newArray [] st;
          (ts, st2) = newArray [rule_name (target this)] st1
      in newObject \<lparr>options = os, targets = ts, workspaceInfo = itemWorkspaceInfo this\<rparr> st2)"

definition BazelGTestTreeItem_getBazelCommandOptions ::
  "'res BazelGTestTreeItem \<Rightarrow> IBazelCommandAdapter" where
  "BazelGTestTreeItem_getBazelCommandOptions this st =
     (let (os, st1) = newArray [''--gtest_filter='' @ testName this] st;
          (ts, st2) = newArray [rule_name (gtestTarget this)] st1
      in newObject \<lparr>options = os, targets = ts, workspaceInfo = gtestWorkspaceInfo this\<rparr> st2)"

text \<open>An adapter that hands out one options object that it keeps.\<close>

definition returnsObject :: "ref \<Rightarrow> IBazelCommandAdapter" where
  "returnsObject obj st = (obj, st)"

section \<open>The environment\<close>

text \<open>
  \<^verbatim>\<open>vscode.TaskProcessEndEvent\<close>; the exit code is \<^verbatim>\<open>undefined\<close> (\<open>None\<close>) when the process was
  terminated.
\<close>

record TaskProcessEndEvent =
  execution :: nat
  exitCode :: "int option"

text \<open>
  What the sources receive from outside: the choice made in a quick pick (\<open>None\<close> when the
  user cancels), the task process end events that arrive once a listener is registered,
  the result of \<^verbatim>\<open>queryOutputs\<close> (given executable, workspace path, target and options), the
  configured executable and extra source mappings (\<open>None\<close> when not configured), the result
  of \<^verbatim>\<open>execFile\<close> (given file, arguments, working directory and \<^verbatim>\<open>maxBuffer\<close>; its standard
  output, or the reason it was rejected) and whether \<^verbatim>\<open>fs.stat\<close> succeeds on a file.
\<close>

record env =
  showQuickPick :: "quickPickItems \<Rightarrow> IBazelCommandAdapter option"
  taskProcessEnds :: "TaskProcessEndEvent list"
  queryOutputs :: "string \<Rightarrow> string \<Rightarrow> string \<Rightarrow> string list option \<Rightarrow> error + string list"
  getDefaultBazelExecutablePath :: string
  extraDebugSourceMappings :: "(string \<rightharpoonup> string) option"
  execFile :: "string \<Rightarrow> string list \<Rightarrow> string \<Rightarrow> nat \<Rightarrow> error + string"
  stat :: "string \<Rightarrow> bool"

section \<open>The wrapper commands\<close>

text \<open>
  The functions of bazel_wrapper_commands.ts.  Each is asynchronous; what its promise
  comes to is \<open>Inl\<close> of the error it is rejected with, or \<open>Inr\<close> of: \<open>Returned\<close>, the
  function returned \<^verbatim>\<open>undefined\<close>; \<open>Pending\<close>, the promise is never resolved; \<open>Resolved\<close>, the
  promise made by \<^verbatim>\<open>bazelDebugTestTarget\<close> was resolved with the debug session.
\<close>

datatype outcome = Returned | Pending | Resolved

text \<open>\<^verbatim>\<open>await p; return;\<close>\<close>

definition awaitThenReturn :: "(error + outcome) \<times> state \<Rightarrow> (error + outcome) \<times> state" where
  "awaitThenReturn r =
     (case fst r of
        Inl e \<Rightarrow> (Inl e, snd r)
      | Inr Pending \<Rightarrow> (Inr Pending, snd r)
      | Inr _ \<Rightarrow> (Inr Returned, snd r))"

function bazelBuildTarget ::
  "IBazelCommandAdapter option \<Rightarrow> env \<Rightarrow> state \<Rightarrow> (error + outcome) \<times> state" where
  "bazelBuildTarget None env st =
     (let items = queryQuickPickTargets ''kind('.* rule', ...)'';
          st1 = emit (ShowQuickPick items) st
      in case showQuickPick env items of
           None \<Rightarrow> (Inr Returned, st1)
         | Some quickPick \<Rightarrow> awaitThenReturn (bazelBuildTarget (Some quickPick) env st1))"
| "bazelBuildTarget (Some adapter) env st =
     (let (commandOptions, st1) = adapter st;
          task = createBazelTask ''build'' commandOptions st1;
          (execution', st2) = executeTask task st1
      in (Inr Returned, st2))"
  by pat_completeness auto
termination
  by (relation "measure (\<lambda>(adapter, env, st). if adapter = None then 1 else 0)") auto

definition appendSuffix :: "string \<Rightarrow> string \<Rightarrow> string" where
  "appendSuffix suffix s = s @ suffix"

function buildPackage ::
  "string \<Rightarrow> IBazelCommandAdapter option \<Rightarrow> env \<Rightarrow> state \<Rightarrow> (error + outcome) \<times> state" where
  "buildPackage suffix None env st =
     (let st1 = emit (ShowQuickPick queryQuickPickPackage) st
      in case showQuickPick env queryQuickPickPackage of
           None \<Rightarrow> (Inr Returned, st1)
         | Some quickPick \<Rightarrow> awaitThenReturn (buildPackage suffix (Some quickPick) env st1))"
| "buildPackage suffix (Some adapter) env st =
     (let (commandOptions, st1) = adapter st;
          (mapped, st2) =
            newArray (map (appendSuffix suffix) (arrays st1 (targets (objects st1 commandOptions)))) st1;
          (allCommandOptions, st3) =
            newObject \<lparr>options = options (objects st2 commandOptions),
                       targets = mapped,
                       workspaceInfo = workspaceInfo (objects st2 commandOptions)\<rparr> st2;
          task = createBazelTask ''build'' allCommandOptions st3;
          (execution', st4) = executeTask task st3
      in (Inr Returned, st4))"
  by pat_completeness auto
termination
  by (relation "measure (\<lambda>(suffix, adapter, env, st). if adapter = None then 1 else 0)") auto

definition bazelbuildAll ::
  "IBazelCommandAdapter option \<Rightarrow> env \<Rightarrow> state \<Rightarrow> (error + outcome) \<times> state" where
  "bazelbuildAll adapter env st = awaitThenReturn (buildPackage '':all'' adapter env st)"

definition bazelbuildAllRecursive ::
  "IBazelCommandAdapter option \<Rightarrow> env \<Rightarrow> state \<Rightarrow> (error + outcome) \<times> state" where
  "bazelbuildAllRecursive adapter env st = awaitThenReturn (buildPackage ''/...'' adapter env st)"

function bazelRunTarget ::
  "IBazelCommandAdapter option \<Rightarrow> env \<Rightarrow> state \<Rightarrow> (error + outcome) \<times> state" where
  "bazelRunTarget None env st =
     (let items = queryQuickPickTargets ''kind('.* rule', ...)'';
          st1 = emit (ShowQuickPick items) st
      in case showQuickPick env items of
           None \<Rightarrow> (Inr Returned, st1)
         | Some quickPick \<Rightarrow> awaitThenReturn (bazelRunTarget (Some quickPick) env st1))"
| "bazelRunTarget (Some adapter) env st =
     (let (commandOptions, st1) = adapter st;
          task = createBazelTask ''run'' commandOptions st1;
          (execution', st2) = executeTask task st1
      in (Inr Returned, st2))"
  by pat_completeness auto
termination
  by (relation "measure (\<lambda>(adapter, env, st). if adapter = None then 1 else 0)") auto

text \<open>The parameter \<^verbatim>\<open>mode: "test" | "coverage"\<close> and the string it is.\<close>

datatype mode = Test | Coverage

fun modeName :: "mode \<Rightarrow> string" where
  "modeName Test = ''test''"
| "modeName Coverage = ''coverage''"

definition testArg :: "string \<Rightarrow> string" where
  "testArg opt = ''--test_arg='' @ opt"

function bazelTestTarget ::
  "IBazelCommandAdapter option \<Rightarrow> mode \<Rightarrow> string list \<Rightarrow> env \<Rightarrow> state
     \<Rightarrow> (error + outcome) \<times> state" where
  "bazelTestTarget None mode extraArgs env st =
     (let items = queryQuickPickTargets ''kind('.*_test rule', ...)'';
          st1 = emit (ShowQuickPick items) st
      in case showQuickPick env items of
           None \<Rightarrow> (Inr Returned, st1)
         | Some quickPick \<Rightarrow> awaitThenReturn (bazelTestTarget (Some quickPick) mode [] env st1))"
| "bazelTestTarget (Some adapter) mode extraArgs env st =
     (let (commandOptions, st1) = adapter st;
          (mapped, st2) =
            newArray (map testArg (arrays st1 (options (objects st1 commandOptions)))) st1;
          st3 = setOptions commandOptions mapped st2;
          st4 = push (options (objects st3 commandOptions)) extraArgs st3;
          task = createBazelTask (modeName mode) commandOptions st4;
          (execution', st5) = executeTask task st4
      in (Inr Returned, st5))"
  by pat_completeness auto
termination
  by (relation "measure (\<lambda>(adapter, mode, extraArgs, env, st). if adapter = None then 1 else 0)")
    auto

text \<open>
  \<^verbatim>\<open>new BazelCQuery(bazelExecutable, workingDirectory)\<close>: the two arguments are kept for
  the call of \<^verbatim>\<open>queryOutputs\<close>.
\<close>

record BazelCQuery =
  bazelExecutable :: string
  workingDirectory :: string

text \<open>
  The listener that \<^verbatim>\<open>bazelDebugTestTarget\<close> registers with
  \<^verbatim>\<open>vscode.tasks.onDidEndTaskProcess\<close>, for one event.  It gives whether it disposed of its
  registration, and what has become of the promise.  A rejected \<^verbatim>\<open>queryOutputs\<close> ends the
  listener and leaves the promise unresolved.
\<close>

definition onDidEndTaskProcess_listener ::
  "env \<Rightarrow> BazelCQuery \<Rightarrow> nat \<Rightarrow> string \<Rightarrow> ref \<Rightarrow> string \<Rightarrow> TaskProcessEndEvent \<Rightarrow> state
     \<Rightarrow> (bool \<times> outcome) \<times> state" where
  "onDidEndTaskProcess_listener env query execution' target' commandOptions cwd' event st =
     (if execution event = execution' then
        (if exitCode event \<noteq> Some 0 then ((True, Pending), st)
         else
           (let st1 = emit (QueryOutputs (bazelExecutable query) (workingDirectory query)
                              target' (Some [''--compilation_mode'', ''dbg''])) st
            in case queryOutputs env (bazelExecutable query) (workingDirectory query)
                      target' (Some [''--compilation_mode'', ''dbg'']) of
                 Inl e \<Rightarrow> ((True, Pending), st1)
               | Inr outputs \<Rightarrow>
                   (let config =
                          \<lparr>name = ''Debug Test Target: '' @ target',
                           type = ''lldb'',
                           request = ''launch'',
                           program = index outputs 0,
                           args = arrays st1 (options (objects st1 commandOptions)),
                           cwd = cwd',
                           breakpointMode = ''file'',
                           sourceMap =
                             [''/proc/self/cwd'' \<mapsto> ''${workspaceFolder}''] ++
                             (case extraDebugSourceMappings env of
                                None \<Rightarrow> Map.empty
                              | Some mappings \<Rightarrow> mappings),
                           logging_programOutput = True,
                           internalConsoleOptions = ''neverOpen'',
                           externalConsole = False\<rparr>
                    in ((True, Resolved),
                        emit (StartDebugging
                                (workspaceFolder (workspaceInfo (objects st1 commandOptions)))
                                config) st1))))
      else ((False, Pending), st))"

text \<open>
  The events that arrive while a listener is registered: each goes to the listener, until
  the listener disposes of its registration.
\<close>

fun onDidEndTaskProcess ::
  "(TaskProcessEndEvent \<Rightarrow> state \<Rightarrow> (bool \<times> outcome) \<times> state) \<Rightarrow> TaskProcessEndEvent list
     \<Rightarrow> state \<Rightarrow> outcome \<times> state" where
  "onDidEndTaskProcess listener [] st = (Pending, st)"
| "onDidEndTaskProcess listener (event # events) st =
     (case listener event st of
        ((disposed, result), st') \<Rightarrow>
          if disposed then (result, st') else onDidEndTaskProcess listener events st')"

function bazelDebugTestTarget ::
  "IBazelCommandAdapter option \<Rightarrow> string list \<Rightarrow> env \<Rightarrow> state \<Rightarrow> (error + outcome) \<times> state" where
  "bazelDebugTestTarget None extraArgs env st =
     (let items = queryQuickPickTargets ''kind('.*_test rule', ...)'';
          st1 = emit (ShowQuickPick items) st
      in case showQuickPick env items of
           None \<Rightarrow> (Inr Returned, st1)
         | Some quickPick \<Rightarrow> awaitThenReturn (bazelDebugTestTarget (Some quickPick) [] env st1))"
| "bazelDebugTestTarget (Some adapter) extraArgs env st =
     (let (commandOptions, st1) = adapter st in
      if length (arrays st1 (targets (objects st1 commandOptions))) \<noteq> 1 then
        (Inl (Error ''bug: invalid number of targets passed to bazelDebugTestTarget''), st1)
      else
        (let target' = arrays st1 (targets (objects st1 commandOptions)) ! 0;
             (buildOptions, st2) = newArray ([''--compilation_mode'', ''dbg''] @ extraArgs) st1;
             (buildCommandOptions, st3) =
               newObject \<lparr>options = buildOptions,
                          targets = targets (objects st2 commandOptions),
                          workspaceInfo = workspaceInfo (objects st2 commandOptions)\<rparr> st2;
             task = createBazelTask ''build'' buildCommandOptions st3;
             cwd' = bazelWorkspacePath (workspaceInfo (objects st3 commandOptions));
             query =
               \<lparr>bazelExecutable = getDefaultBazelExecutablePath env,
                workingDirectory = bazelWorkspacePath (workspaceInfo (objects st3 commandOptions))\<rparr>;
             (execution', st4) = executeTask task st3;
             (result, st5) =
               onDidEndTaskProcess
                 (onDidEndTaskProcess_listener env query execution' target' commandOptions cwd')
                 (taskProcessEnds env) st4
         in (Inr result, st5)))"
  by pat_completeness auto
termination
  by (relation "measure (\<lambda>(adapter, extraArgs, env, st). if adapter = None then 1 else 0)") auto

function testPackage ::
  "string \<Rightarrow> IBazelCommandAdapter option \<Rightarrow> mode \<Rightarrow> env \<Rightarrow> state
     \<Rightarrow> (error + outcome) \<times> state" where
  "testPackage suffix None mode env st =
     (let st1 = emit (ShowQuickPick queryQuickPickPackage) st
      in case showQuickPick env queryQuickPickPackage of
           None \<Rightarrow> (Inr Returned, st1)
         | Some quickPick \<Rightarrow> awaitThenReturn (testPackage suffix (Some quickPick) mode env st1))"
| "testPackage suffix (Some adapter) mode env st =
     (let (commandOptions, st1) = adapter st;
          (mapped, st2) =
            newArray (map (appendSuffix suffix) (arrays st1 (targets (objects st1 commandOptions)))) st1;
          (allCommandOptions, st3) =
            newObject \<lparr>options = options (objects st2 commandOptions),
                       targets = mapped,
                       workspaceInfo = workspaceInfo (objects st2 commandOptions)\<rparr> st2;
          task = createBazelTask (modeName mode) allCommandOptions st3;
          (execution', st4) = executeTask task st3
      in (Inr Returned, st4))"
  by pat_completeness auto
termination
  by (relation "measure (\<lambda>(suffix, adapter, mode, env, st). if adapter = None then 1 else 0)")
    auto

definition bazelTestAll ::
  "IBazelCommandAdapter option \<Rightarrow> env \<Rightarrow> state \<Rightarrow> (error + outcome) \<times> state" where
  "bazelTestAll adapter env st = awaitThenReturn (testPackage '':all'' adapter Test env st)"

definition bazelTestAllRecursive ::
  "IBazelCommandAdapter option \<Rightarrow> mode \<Rightarrow> env \<Rightarrow> state \<Rightarrow> (error + outcome) \<times> state" where
  "bazelTestAllRecursive adapter mode env st =
     awaitThenReturn (testPackage ''/...'' adapter mode env st)"

section \<open>The children of a target\<close>

text \<open>
  \<^verbatim>\<open>fileExists\<close> is asynchronous: what a call gives is a promise, of whether \<^verbatim>\<open>fs.stat\<close>
  succeeded.
\<close>

datatype 'a Promise = Promise 'a

definition fileExists :: "env \<Rightarrow> string \<Rightarrow> bool Promise" where
  "fileExists env filename = Promise (stat env filename)"

text \<open>A promise used as a condition: it is an object, and every object counts as true.\<close>

definition truthy :: "'a Promise \<Rightarrow> bool" where
  "truthy p = True"

text \<open>
  \<^verbatim>\<open>BazelTargetTreeItem.getChildren\<close>.  \<open>Inr None\<close> is the function ending without a
  \<^verbatim>\<open>return\<close>.  The \<^verbatim>\<open>try\<close> block holds both the call of the test binary and the parser.
\<close>

definition getChildren ::
  "'res BazelTargetTreeItem \<Rightarrow> env \<Rightarrow> error + 'res BazelGTestTreeItem list option" where
  "getChildren this env =
     (case queryOutputs env (getDefaultBazelExecutablePath env)
             (bazelWorkspacePath (itemWorkspaceInfo this)) (rule_name (target this)) None of
        Inl e \<Rightarrow> Inl e
      | Inr outputs \<Rightarrow>
          if length outputs \<noteq> 1 then Inr (Some [])
          else if truthy (fileExists env (outputs ! 0)) then
            (case execFile env (outputs ! 0) [''--gtest_list_tests'']
                    (bazelWorkspacePath (itemWorkspaceInfo this)) (500 * 1024) of
               Inl e \<Rightarrow> Inr (Some [])
             | Inr stdout \<Rightarrow>
                 (case parseGtestList this stdout of
                    Inl e \<Rightarrow> Inr (Some [])
                  | Inr tests \<Rightarrow> Inr (Some tests)))
          else Inr None)"

section \<open>The parser as the specification words it\<close>

text \<open>The text of a line before its first \<^verbatim>\<open>#\<close>, and the text after it.\<close>

definition beforeHash :: "string \<Rightarrow> string" where
  "beforeHash line = takeWhile (\<lambda>c. c \<noteq> CHR ''#'') line"

definition afterHash :: "string \<Rightarrow> string" where
  "afterHash line = drop 1 (dropWhile (\<lambda>c. c \<noteq> CHR ''#'') line)"

text \<open>
  The reference algorithm, in the specification's words: a line that does not start with
  two spaces sets the current group to its trimmed text; a line that starts with two spaces
  gives one descriptor, named by the current group followed by the trimmed text before the
  first \<^verbatim>\<open>#\<close>, with the trimmed text after the first \<^verbatim>\<open>#\<close> as its comment when a \<^verbatim>\<open>#\<close> is
  present.
\<close>

fun spec_parseLines ::
  "'res BazelTargetTreeItem \<Rightarrow> string \<Rightarrow> string list \<Rightarrow> 'res BazelGTestTreeItem list" where
  "spec_parseLines this currentGroup [] = []"
| "spec_parseLines this currentGroup (line # lines) =
     (if startsWith line ''  '' then
        BazelGTestTreeItem (resources this) (itemWorkspaceInfo this) (target this)
          (currentGroup @ trim (beforeHash line))
          (if CHR ''#'' \<in> set line then Some (trim (afterHash line)) else None)
        # spec_parseLines this currentGroup lines
      else spec_parseLines this (trim line) lines)"

definition spec_parseGtestList ::
  "'res BazelTargetTreeItem \<Rightarrow> string \<Rightarrow> 'res BazelGTestTreeItem list" where
  "spec_parseGtestList this input = spec_parseLines this [] (str_split CHR 0x0A input)"

text \<open>
  The same algorithm with the comment given only to a line that holds exactly one \<^verbatim>\<open>#\<close>.
\<close>

fun oneHash_parseLines ::
  "'res BazelTargetTreeItem \<Rightarrow> string \<Rightarrow> string list \<Rightarrow> 'res BazelGTestTreeItem list" where
  "oneHash_parseLines this currentGroup [] = []"
| "oneHash_parseLines this currentGroup (line # lines) =
     (if startsWith line ''  '' then
        BazelGTestTreeItem (resources this) (itemWorkspaceInfo this) (target this)
          (currentGroup @ trim (beforeHash line))
          (if count_list line CHR ''#'' = 1 then Some (trim (afterHash line)) else None)
        # oneHash_parseLines this currentGroup lines
      else oneHash_parseLines this (trim line) lines)"

definition oneHash_parseGtestList ::
  "'res BazelTargetTreeItem \<Rightarrow> string \<Rightarrow> 'res BazelGTestTreeItem list" where
  "oneHash_parseGtestList this input = oneHash_parseLines this [] (str_split CHR 0x0A input)"

text \<open>
  The text made of the given lines, each followed by a line feed, and then of the rest:
  the inverse of splitting into lines.
\<close>

fun joinLines :: "string list \<Rightarrow> string \<Rightarrow> string" where
  "joinLines [] rest = rest"
| "joinLines (line # lines) rest = line @ CHR 0x0A # joinLines lines rest"

text \<open>
  An options object and its two arrays were allocated before the next allocation of the
  store: what holds of every object that an adapter can return.
\<close>

definition allocated :: "state \<Rightarrow> ref \<Rightarrow> bool" where
  "allocated st commandOptions =
     (commandOptions < fresh st \<and> options (objects st commandOptions) < fresh st
      \<and> targets (objects st commandOptions) < fresh st)"

text \<open>
  The state in which \<^verbatim>\<open>bazelDebugTestTarget\<close> waits for the end of its build: the state
  \<open>st1\<close> that the adapter left, after the options array and the options object of the build
  task are allocated and the task is submitted.
\<close>

definition buildSubmitted :: "string list \<Rightarrow> ref \<Rightarrow> state \<Rightarrow> state" where
  "buildSubmitted extraArgs commandOptions st1 =
     snd (executeTask
       (createBazelTask ''build'' (Suc (fresh st1))
          (snd (newObject \<lparr>options = fresh st1,
                  targets = targets (objects st1 commandOptions),
                  workspaceInfo = workspaceInfo (objects st1 commandOptions)\<rparr>
                (snd (newArray ([''--compilation_mode'', ''dbg''] @ extraArgs) st1)))))
       (snd (newObject \<lparr>options = fresh st1,
                  targets = targets (objects st1 commandOptions),
                  workspaceInfo = workspaceInfo (objects st1 commandOptions)\<rparr>
                (snd (newArray ([''--compilation_mode'', ''dbg''] @ extraArgs) st1)))))"

section \<open>Example values\<close>

definition exampleWorkspace :: BazelWorkspaceInfo where
  "exampleWorkspace = \<lparr>bazelWorkspacePath = ''/w'', workspaceFolder = ''/w''\<rparr>"

definition exampleTarget :: "unit BazelTargetTreeItem" where
  "exampleTarget =
     BazelTargetTreeItem () exampleWorkspace \<lparr>rule_name = ''//x:y'', rule_ruleClass = ''cc_test''\<rparr>"

text \<open>
  A store whose object 12 is the options \<^verbatim>\<open>{options: ["--foo"], targets: ["//x:y"]}\<close>, with
  the arrays at 10 and 11, and variants of it with no target and with two targets.
\<close>

definition exampleState :: state where
  "exampleState =
     \<lparr>arrays = (\<lambda>r. [])(10 := [''--foo''], 11 := [''//x:y'']),
      objects = (\<lambda>r. \<lparr>options = 10, targets = 11, workspaceInfo = exampleWorkspace\<rparr>),
      fresh = 13,
      trace = []\<rparr>"

definition noTargetsState :: state where
  "noTargetsState = exampleState\<lparr>arrays := (arrays exampleState)(11 := [])\<rparr>"

definition twoTargetsState :: state where
  "twoTargetsState = exampleState\<lparr>arrays := (arrays exampleState)(11 := [''//x:y'', ''//x:z''])\<rparr>"

text \<open>
  Environments: one where nothing happens, and variants where the build fails, where it
  succeeds, where the user picks the adapter that returns object 12, where the query gives
  two outputs, where the test binary cannot be run, and where it lists one test.
\<close>

definition exampleEnv :: env where
  "exampleEnv =
     \<lparr>showQuickPick = (\<lambda>items. None),
      taskProcessEnds = [],
      queryOutputs = (\<lambda>executable directory label opts. Inr []),
      getDefaultBazelExecutablePath = ''bazel'',
      extraDebugSourceMappings = None,
      execFile = (\<lambda>file arguments directory maxBuffer. Inr []),
      stat = (\<lambda>filename. True)\<rparr>"

definition failedBuildEnv :: env where
  "failedBuildEnv =
     exampleEnv\<lparr>taskProcessEnds :=
       [\<lparr>execution = 7, exitCode = Some 0\<rparr>,
        \<lparr>execution = 0, exitCode = Some 1\<rparr>,
        \<lparr>execution = 0, exitCode = Some 0\<rparr>]\<rparr>"

definition succeededBuildEnv :: env where
  "succeededBuildEnv =
     exampleEnv\<lparr>taskProcessEnds := [\<lparr>execution = 0, exitCode = Some 0\<rparr>],
                queryOutputs := (\<lambda>executable directory label opts. Inr [''/w/bazel-bin/x/y''])\<rparr>"

definition quickPickEnv :: env where
  "quickPickEnv = exampleEnv\<lparr>showQuickPick := (\<lambda>items. Some (returnsObject 12))\<rparr>"

definition twoOutputsEnv :: env where
  "twoOutputsEnv =
     exampleEnv\<lparr>queryOutputs := (\<lambda>executable directory label opts. Inr [''/w/a'', ''/w/b''])\<rparr>"

definition execFailsEnv :: env where
  "execFailsEnv =
     exampleEnv\<lparr>queryOutputs := (\<lambda>executable directory label opts. Inr [''/w/a'']),
                execFile := (\<lambda>file arguments directory maxBuffer. Inl (Error ''ENOENT''))\<rparr>"

definition listingEnv :: env where
  "listingEnv =
     exampleEnv\<lparr>queryOutputs := (\<lambda>executable directory label opts. Inr [''/w/a'']),
                execFile := (\<lambda>file arguments directory maxBuffer. Inr ''  Case1'')\<rparr>"

section \<open>Properties of the string functions\<close>

lemma str_split_not_Nil: "str_split sep s \<noteq> []"
  by (induction s) (auto split: list.splits)

lemma hd_str_split: "hd (str_split sep s) = takeWhile (\<lambda>c. c \<noteq> sep) s"
  using str_split_not_Nil [of sep]
  by (induction s) (auto split: list.splits)

lemma length_str_split: "length (str_split sep s) = Suc (count_list s sep)"
  using str_split_not_Nil [of sep]
  by (induction s) (auto split: list.splits)

lemma str_split_no_sep: "sep \<notin> set s \<Longrightarrow> str_split sep s = [s]"
  by (induction s) (auto split: list.splits)

lemma tl_str_split:
  "sep \<in> set s \<Longrightarrow> tl (str_split sep s) = str_split sep (drop 1 (dropWhile (\<lambda>c. c \<noteq> sep) s))"
  using str_split_not_Nil [of sep]
  by (induction s) (auto split: list.splits)

lemma str_split_append:
  "sep \<notin> set l \<Longrightarrow> str_split sep (l @ sep # rest) = l # str_split sep rest"
  using str_split_not_Nil [of sep]
  by (induction l) (auto split: list.splits)


lemma index_0_str_split: "index (str_split sep s) 0 = Some (takeWhile (\<lambda>c. c \<noteq> sep) s)"
proof -
  have "str_split sep s \<noteq> []" by (rule str_split_not_Nil)
  then have "index (str_split sep s) 0 = Some (hd (str_split sep s))"
    by (cases "str_split sep s") (simp_all add: index_def)
  then show ?thesis by (simp add: hd_str_split)
qed

lemma count_list_0_iff: "count_list s c = 0 \<longleftrightarrow> c \<notin> set s"
  by (induction s) auto

lemma count_list_after:
  "c \<in> set s \<Longrightarrow> count_list s c = Suc (count_list (drop 1 (dropWhile (\<lambda>x. x \<noteq> c) s)) c)"
  by (induction s) auto

lemma index_1_str_split:
  assumes "count_list s sep = 1"
  shows "index (str_split sep s) (Suc 0) = Some (drop (Suc 0) (dropWhile (\<lambda>c. c \<noteq> sep) s))"
proof -
  let ?rest = "drop 1 (dropWhile (\<lambda>c. c \<noteq> sep) s)"
  from assms have mem: "sep \<in> set s"
    using count_list_0_iff [of s sep] by auto
  with assms have "count_list ?rest sep = 0"
    using count_list_after [of sep s] by simp
  then have "sep \<notin> set ?rest" using count_list_0_iff [of ?rest sep] by blast
  then have "str_split sep ?rest = [?rest]" by (rule str_split_no_sep)
  with mem have tl: "tl (str_split sep s) = [?rest]" by (simp add: tl_str_split)
  have "str_split sep s \<noteq> []" by (rule str_split_not_Nil)
  with tl show ?thesis
    by (cases "str_split sep s") (simp_all add: index_def)
qed

section \<open>Properties of the test-list parser\<close>

lemma parseGtestLine_case:
  assumes "startsWith line ''  ''"
  shows "parseGtestLine this line vars =
     Inr (vars\<lparr>allTests := allTests vars @
       [BazelGTestTreeItem (resources this) (itemWorkspaceInfo this) (target this)
          (currentTestGroup vars @ trim (beforeHash line))
          (if count_list line CHR ''#'' = 1 then Some (trim (afterHash line)) else None)]\<rparr>)"
proof (cases "count_list line CHR ''#'' = 1")
  case True
  then show ?thesis
    using assms
    by (simp add: parseGtestLine_def length_str_split index_0_str_split index_1_str_split
        beforeHash_def afterHash_def)
next
  case False
  then show ?thesis
    using assms
    by (simp add: parseGtestLine_def length_str_split index_0_str_split beforeHash_def)
qed

lemma parseGtestLine_group:
  "\<not> startsWith line ''  '' \<Longrightarrow>
     parseGtestLine this line vars = Inr (vars\<lparr>currentTestGroup := trim line\<rparr>)"
  by (simp add: parseGtestLine_def)

lemma forEach_parseGtestLine:
  "\<exists>group. forEach (parseGtestLine this) lines vars =
     Inr \<lparr>currentTestGroup = group,
          allTests = allTests vars @ oneHash_parseLines this (currentTestGroup vars) lines\<rparr>"
proof (induction lines arbitrary: vars)
  case Nil
  show ?case by (rule exI [of _ "currentTestGroup vars"]) simp
next
  case (Cons line lines)
  show ?case
  proof (cases "startsWith line ''  ''")
    case True
    with Cons.IH [of "vars\<lparr>allTests := allTests vars @
       [BazelGTestTreeItem (resources this) (itemWorkspaceInfo this) (target this)
          (currentTestGroup vars @ trim (beforeHash line))
          (if count_list line CHR ''#'' = 1 then Some (trim (afterHash line)) else None)]\<rparr>"]
    show ?thesis by (simp add: parseGtestLine_case)
  next
    case False
    with Cons.IH [of "vars\<lparr>currentTestGroup := trim line\<rparr>"]
    show ?thesis by (simp add: parseGtestLine_group)
  qed
qed

lemma parseGtestList_eq_oneHash:
  "parseGtestList this input = Inr (oneHash_parseGtestList this input)"
proof -
  obtain group where
    "forEach (parseGtestLine this) (str_split CHR 0x0A input) \<lparr>currentTestGroup = [], allTests = []\<rparr>
       = Inr \<lparr>currentTestGroup = group,
              allTests = oneHash_parseLines this [] (str_split CHR 0x0A input)\<rparr>"
    using forEach_parseGtestLine [of this "str_split CHR 0x0A input"
        "\<lparr>currentTestGroup = [], allTests = []\<rparr>"]
    by auto
  then show ?thesis by (simp add: parseGtestList_def oneHash_parseGtestList_def)
qed


text \<open>
  C1, as the specification states it, fails: a case line with two \<^verbatim>\<open>#\<close> gets no comment from
  \<^verbatim>\<open>parseGtestList\<close>, where the reference algorithm gives it the text after the first \<^verbatim>\<open>#\<close>.
\<close>

theorem parseGtestList_spec_counterexample:
  "parseGtestList exampleTarget ''  a#b#c'' =
     Inr [BazelGTestTreeItem () exampleWorkspace
            \<lparr>rule_name = ''//x:y'', rule_ruleClass = ''cc_test''\<rparr> ''a'' None]
   \<and> spec_parseGtestList exampleTarget ''  a#b#c'' =
     [BazelGTestTreeItem () exampleWorkspace
        \<lparr>rule_name = ''//x:y'', rule_ruleClass = ''cc_test''\<rparr> ''a'' (Some ''b#c'')]
   \<and> parseGtestList exampleTarget ''  a#b#c'' \<noteq> Inr (spec_parseGtestList exampleTarget ''  a#b#c'')"
  by (simp add: parseGtestList_def spec_parseGtestList_def parseGtestLine_def startsWith_def
      index_def trim_def isWhiteSpace_def beforeHash_def afterHash_def exampleTarget_def)

text \<open>
  C1, amended: for every input text, \<^verbatim>\<open>parseGtestList\<close> returns what the reference algorithm
  returns when the comment is given only to case lines that hold exactly one \<^verbatim>\<open>#\<close>.  The
  input is split into lines; a line that does not start with two spaces sets the current
  group to its trimmed text and gives no descriptor; a line that starts with two spaces gives
  one descriptor, named by the current group followed by the trimmed text before the first
  \<^verbatim>\<open>#\<close>, whose comment is the trimmed text after the \<^verbatim>\<open>#\<close> when the line holds exactly one
  \<^verbatim>\<open>#\<close>, and absent otherwise; the descriptors are in the order of their lines.
\<close>

theorem parseGtestList_refines_oneHash:
  "parseGtestList this input = Inr (oneHash_parseGtestList this input)"
  by (rule parseGtestList_eq_oneHash)

lemma str_split_joinLines:
  "\<forall>l \<in> set ls. CHR 0x0A \<notin> set l \<Longrightarrow>
     str_split CHR 0x0A (joinLines ls rest) = ls @ str_split CHR 0x0A rest"
  by (induction ls) (simp_all add: str_split_append)

lemma oneHash_parseLines_cases:
  "\<forall>l \<in> set ls. startsWith l ''  '' \<Longrightarrow>
     oneHash_parseLines this currentGroup (ls @ lines) =
       map (\<lambda>l. BazelGTestTreeItem (resources this) (itemWorkspaceInfo this) (target this)
                 (currentGroup @ trim (beforeHash l))
                 (if count_list l CHR ''#'' = 1 then Some (trim (afterHash l)) else None)) ls
       @ oneHash_parseLines this currentGroup lines"
  by (induction ls) simp_all

text \<open>
  C8: \<^verbatim>\<open>parseGtestList\<close> returns a list on every input and never throws; the empty input
  gives the empty list; and every case line that no group header precedes gives a
  descriptor named by its trimmed case text (the text before the first \<^verbatim>\<open>#\<close>, which is the
  whole line when it holds none) after an empty group prefix.  That is: when the input
  begins with case lines, each followed by a line feed, its result is the descriptors of
  these lines, in their order and with the empty group, followed by the result for the rest
  of the input; and when the input is case lines only, the last without a line feed, its
  result is the descriptors of all of them.
\<close>

theorem parseGtestList_never_fails:
  assumes "\<forall>l \<in> set caseLines. startsWith l ''  '' \<and> CHR 0x0A \<notin> set l"
    and "startsWith line ''  ''" and "CHR 0x0A \<notin> set line"
  shows "(\<exists>tests. parseGtestList this input = Inr tests)
    \<and> parseGtestList this [] = Inr []
    \<and> (\<exists>tests. parseGtestList this rest = Inr tests
          \<and> parseGtestList this (joinLines caseLines rest) =
              Inr (map (\<lambda>l. BazelGTestTreeItem (resources this) (itemWorkspaceInfo this) (target this)
                               ([] @ trim (beforeHash l))
                               (if count_list l CHR ''#'' = 1 then Some (trim (afterHash l)) else None))
                     caseLines
                   @ tests))
    \<and> parseGtestList this (joinLines caseLines line) =
          Inr (map (\<lambda>l. BazelGTestTreeItem (resources this) (itemWorkspaceInfo this) (target this)
                           ([] @ trim (beforeHash l))
                           (if count_list l CHR ''#'' = 1 then Some (trim (afterHash l)) else None))
                 (caseLines @ [line]))"
proof -
  have total: "\<exists>tests. parseGtestList this input = Inr tests"
    by (simp add: parseGtestList_eq_oneHash)
  have empty: "parseGtestList this [] = Inr []"
    by (simp add: parseGtestList_eq_oneHash oneHash_parseGtestList_def startsWith_def)
  from assms(1) have nl: "\<forall>l \<in> set caseLines. CHR 0x0A \<notin> set l"
    and cl: "\<forall>l \<in> set caseLines. startsWith l ''  ''"
    by simp_all
  have lines_eq: "str_split CHR 0x0A (joinLines caseLines remainder) = caseLines @ str_split CHR 0x0A remainder"
    for remainder
    using nl by (rule str_split_joinLines)
  have general: "parseGtestList this (joinLines caseLines remainder) =
      Inr (map (\<lambda>l. BazelGTestTreeItem (resources this) (itemWorkspaceInfo this) (target this)
                       ([] @ trim (beforeHash l))
                       (if count_list l CHR ''#'' = 1 then Some (trim (afterHash l)) else None))
             caseLines
           @ oneHash_parseGtestList this remainder)" for remainder
    using cl
    by (simp add: parseGtestList_eq_oneHash oneHash_parseGtestList_def lines_eq
        oneHash_parseLines_cases)
  have leading: "\<exists>tests. parseGtestList this rest = Inr tests
      \<and> parseGtestList this (joinLines caseLines rest) =
          Inr (map (\<lambda>l. BazelGTestTreeItem (resources this) (itemWorkspaceInfo this) (target this)
                           ([] @ trim (beforeHash l))
                           (if count_list l CHR ''#'' = 1 then Some (trim (afterHash l)) else None))
                 caseLines
               @ tests)"
    using general [of rest] by (simp add: parseGtestList_eq_oneHash)
  have "str_split CHR 0x0A line = [line]"
    using assms(3) by (rule str_split_no_sep)
  then have "oneHash_parseGtestList this line =
      [BazelGTestTreeItem (resources this) (itemWorkspaceInfo this) (target this)
         ([] @ trim (beforeHash line))
         (if count_list line CHR ''#'' = 1 then Some (trim (afterHash line)) else None)]"
    using assms(2) by (simp add: oneHash_parseGtestList_def)
  then have last: "parseGtestList this (joinLines caseLines line) =
      Inr (map (\<lambda>l. BazelGTestTreeItem (resources this) (itemWorkspaceInfo this) (target this)
                       ([] @ trim (beforeHash l))
                       (if count_list l CHR ''#'' = 1 then Some (trim (afterHash l)) else None))
             (caseLines @ [line]))"
    using general [of line] by simp
  from total empty leading last show ?thesis by blast
qed

theorem parseGtestList_never_fails_witness:
  "startsWith ''  a'' ''  '' \<and> CHR 0x0A \<notin> set ''  a''
   \<and> startsWith ''  b # c'' ''  '' \<and> CHR 0x0A \<notin> set ''  b # c''
   \<and> startsWith ''  d'' ''  '' \<and> CHR 0x0A \<notin> set ''  d''
   \<and> joinLines [''  a'', ''  b # c''] ''  d'' = ''  a\<newline>  b # c\<newline>  d''
   \<and> parseGtestList exampleTarget [] = Inr []
   \<and> parseGtestList exampleTarget ''  a\<newline>  b # c\<newline>  d'' =
       Inr [BazelGTestTreeItem () exampleWorkspace
              \<lparr>rule_name = ''//x:y'', rule_ruleClass = ''cc_test''\<rparr> ''a'' None,
            BazelGTestTreeItem () exampleWorkspace
              \<lparr>rule_name = ''//x:y'', rule_ruleClass = ''cc_test''\<rparr> ''b'' (Some ''c''),
            BazelGTestTreeItem () exampleWorkspace
              \<lparr>rule_name = ''//x:y'', rule_ruleClass = ''cc_test''\<rparr> ''d'' None]"
proof -
  have h1: "\<forall>l \<in> set [''  a'', ''  b # c'']. startsWith l ''  '' \<and> CHR 0x0A \<notin> set l"
    by (simp add: startsWith_def)
  have h2: "startsWith ''  d'' ''  ''" by (simp add: startsWith_def)
  have h3: "CHR 0x0A \<notin> set ''  d''" by simp
  have j: "joinLines [''  a'', ''  b # c''] ''  d'' = ''  a\<newline>  b # c\<newline>  d''" by simp
  have names: "trim (beforeHash ''  a'') = ''a''" "trim (beforeHash ''  b # c'') = ''b''"
    "trim (beforeHash ''  d'') = ''d''" "trim (afterHash ''  b # c'') = ''c''"
    by (simp_all add: trim_def beforeHash_def afterHash_def isWhiteSpace_def)
  note t = parseGtestList_never_fails [OF h1 h2 h3, of exampleTarget "[]" "[]"]
  from t have "parseGtestList exampleTarget [] = Inr []" by blast
  moreover from t have "parseGtestList exampleTarget (joinLines [''  a'', ''  b # c''] ''  d'') =
      Inr (map (\<lambda>l. BazelGTestTreeItem (resources exampleTarget) (itemWorkspaceInfo exampleTarget)
                       (target exampleTarget) ([] @ trim (beforeHash l))
                       (if count_list l CHR ''#'' = 1 then Some (trim (afterHash l)) else None))
             ([''  a'', ''  b # c''] @ [''  d'']))"
    by blast
  then have "parseGtestList exampleTarget ''  a\<newline>  b # c\<newline>  d'' =
       Inr [BazelGTestTreeItem () exampleWorkspace
              \<lparr>rule_name = ''//x:y'', rule_ruleClass = ''cc_test''\<rparr> ''a'' None,
            BazelGTestTreeItem () exampleWorkspace
              \<lparr>rule_name = ''//x:y'', rule_ruleClass = ''cc_test''\<rparr> ''b'' (Some ''c''),
            BazelGTestTreeItem () exampleWorkspace
              \<lparr>rule_name = ''//x:y'', rule_ruleClass = ''cc_test''\<rparr> ''d'' None]"
    unfolding j by (simp add: names exampleTarget_def)
  ultimately show ?thesis using h1 h2 h3 j by simp
qed

section \<open>Properties of the store and of the wrapper commands\<close>

lemmas store_defs = newArray_def newObject_def setOptions_def push_def emit_def
  createBazelTask_def executeTask_def

lemma exampleState_values:
  "arrays exampleState (options (objects exampleState 12)) = [''--foo'']"
  "arrays exampleState (targets (objects exampleState 12)) = [''//x:y'']"
  "workspaceInfo (objects exampleState 12) = exampleWorkspace"
  "trace exampleState = []"
  by (simp_all add: exampleState_def)

text \<open>The objects that the two tree items return are allocated.\<close>

lemma BazelTargetTreeItem_allocated:
  "allocated (snd (BazelTargetTreeItem_getBazelCommandOptions this st))
     (fst (BazelTargetTreeItem_getBazelCommandOptions this st))"
  by (simp add: BazelTargetTreeItem_getBazelCommandOptions_def allocated_def split_def Let_def
      store_defs)

lemma BazelGTestTreeItem_allocated:
  "allocated (snd (BazelGTestTreeItem_getBazelCommandOptions this st))
     (fst (BazelGTestTreeItem_getBazelCommandOptions this st))"
  by (simp add: BazelGTestTreeItem_getBazelCommandOptions_def allocated_def split_def Let_def
      store_defs)

lemma awaitThenReturn_snd: "snd (awaitThenReturn r) = snd r"
  by (simp add: awaitThenReturn_def split: sum.splits outcome.splits)

lemma awaitThenReturn_Returned: "awaitThenReturn (Inr Returned, st) = (Inr Returned, st)"
  by (simp add: awaitThenReturn_def)

lemma buildPackage_Some:
  assumes "adapter st = (commandOptions, st1)" and "allocated st1 commandOptions"
  shows "\<exists>st'. buildPackage suffix (Some adapter) env st = (Inr Returned, st')
     \<and> trace st' = trace st1 @
         [ExecuteTask \<lparr>command = ''build'',
            taskOptions = arrays st1 (options (objects st1 commandOptions)),
            taskTargets = map (\<lambda>s. s @ suffix) (arrays st1 (targets (objects st1 commandOptions))),
            taskWorkspaceInfo = workspaceInfo (objects st1 commandOptions)\<rparr>]
     \<and> objects st' commandOptions = objects st1 commandOptions
     \<and> arrays st' (options (objects st1 commandOptions)) = arrays st1 (options (objects st1 commandOptions))
     \<and> arrays st' (targets (objects st1 commandOptions)) = arrays st1 (targets (objects st1 commandOptions))
     \<and> allocated st' commandOptions"
  using assms
  by (simp add: split_def Let_def store_defs allocated_def appendSuffix_def)

lemma testPackage_Some:
  assumes "adapter st = (commandOptions, st1)" and "allocated st1 commandOptions"
  shows "\<exists>st'. testPackage suffix (Some adapter) mode env st = (Inr Returned, st')
     \<and> trace st' = trace st1 @
         [ExecuteTask \<lparr>command = modeName mode,
            taskOptions = arrays st1 (options (objects st1 commandOptions)),
            taskTargets = map (\<lambda>s. s @ suffix) (arrays st1 (targets (objects st1 commandOptions))),
            taskWorkspaceInfo = workspaceInfo (objects st1 commandOptions)\<rparr>]
     \<and> objects st' commandOptions = objects st1 commandOptions
     \<and> arrays st' (options (objects st1 commandOptions)) = arrays st1 (options (objects st1 commandOptions))
     \<and> arrays st' (targets (objects st1 commandOptions)) = arrays st1 (targets (objects st1 commandOptions))
     \<and> allocated st' commandOptions"
  using assms
  by (simp add: split_def Let_def store_defs allocated_def appendSuffix_def)

lemma onDidEndTaskProcess_skip:
  assumes "\<forall>e \<in> set before. execution e \<noteq> execution'"
  shows "onDidEndTaskProcess
           (onDidEndTaskProcess_listener env query execution' target' commandOptions cwd')
           (before @ events) st =
         onDidEndTaskProcess
           (onDidEndTaskProcess_listener env query execution' target' commandOptions cwd')
           events st"
  using assms
  by (induction before) (simp_all add: onDidEndTaskProcess_listener_def)

lemma listener_store:
  assumes "onDidEndTaskProcess_listener env query execution' target' commandOptions cwd' event st = (r, st')"
  shows "arrays st' = arrays st \<and> objects st' = objects st \<and> fresh st' = fresh st
     \<and> (\<exists>more. trace st' = trace st @ more)"
  using assms
  by (auto simp: onDidEndTaskProcess_listener_def emit_def Let_def split: if_splits sum.splits)

lemma onDidEndTaskProcess_store:
  assumes "onDidEndTaskProcess
           (onDidEndTaskProcess_listener env query execution' target' commandOptions cwd')
           events st = (r, st')"
  shows "arrays st' = arrays st \<and> objects st' = objects st \<and> fresh st' = fresh st
     \<and> (\<exists>more. trace st' = trace st @ more)"
  using assms
proof (induction events arbitrary: st)
  case Nil
  then show ?case by simp
next
  case (Cons event events)
  obtain disposed result st1 where
    l: "onDidEndTaskProcess_listener env query execution' target' commandOptions cwd' event st
          = ((disposed, result), st1)"
    by (metis prod.exhaust)
  note s1 = listener_store [OF l]
  show ?case
  proof (cases disposed)
    case True
    with Cons.prems l have "st' = st1" by simp
    with s1 show ?thesis by simp
  next
    case False
    with Cons.prems l have
      "onDidEndTaskProcess
         (onDidEndTaskProcess_listener env query execution' target' commandOptions cwd')
         events st1 = (r, st')"
      by simp
    from Cons.IH [OF this] s1 show ?thesis by auto
  qed
qed

lemma onDidEndTaskProcess_failed:
  assumes "\<forall>e \<in> set before. execution e \<noteq> execution'"
    and "execution event = execution'" and "exitCode event \<noteq> Some 0"
  shows "onDidEndTaskProcess
           (onDidEndTaskProcess_listener env query execution' target' commandOptions cwd')
           (before @ event # after) st = (Pending, st)"
  using assms
  by (simp add: onDidEndTaskProcess_skip onDidEndTaskProcess_listener_def)

lemma onDidEndTaskProcess_succeeded:
  assumes "\<forall>e \<in> set before. execution e \<noteq> execution'"
    and "execution event = execution'" and "exitCode event = Some 0"
    and "queryOutputs env (bazelExecutable query) (workingDirectory query) target'
           (Some [''--compilation_mode'', ''dbg'']) = Inr outputs"
  shows "onDidEndTaskProcess
           (onDidEndTaskProcess_listener env query execution' target' commandOptions cwd')
           (before @ event # after) st =
         (Resolved,
          st\<lparr>trace := trace st @
            [QueryOutputs (bazelExecutable query) (workingDirectory query) target'
               (Some [''--compilation_mode'', ''dbg'']),
             StartDebugging (workspaceFolder (workspaceInfo (objects st commandOptions)))
               \<lparr>name = ''Debug Test Target: '' @ target',
                type = ''lldb'',
                request = ''launch'',
                program = index outputs 0,
                args = arrays st (options (objects st commandOptions)),
                cwd = cwd',
                breakpointMode = ''file'',
                sourceMap =
                  [''/proc/self/cwd'' \<mapsto> ''${workspaceFolder}''] ++
                  (case extraDebugSourceMappings env of
                     None \<Rightarrow> Map.empty
                   | Some mappings \<Rightarrow> mappings),
                logging_programOutput = True,
                internalConsoleOptions = ''neverOpen'',
                externalConsole = False\<rparr>]\<rparr>)"
  using assms
  by (simp add: onDidEndTaskProcess_skip onDidEndTaskProcess_listener_def emit_def Let_def)

lemma bazelDebugTestTarget_Some:
  assumes "adapter st = (commandOptions, st1)"
    and "length (arrays st1 (targets (objects st1 commandOptions))) = 1"
  shows "bazelDebugTestTarget (Some adapter) extraArgs env st =
     (Inr (fst (onDidEndTaskProcess
        (onDidEndTaskProcess_listener env
           \<lparr>bazelExecutable = getDefaultBazelExecutablePath env,
            workingDirectory = bazelWorkspacePath (workspaceInfo (objects st1 commandOptions))\<rparr>
           (length (trace st1)) (arrays st1 (targets (objects st1 commandOptions)) ! 0)
           commandOptions (bazelWorkspacePath (workspaceInfo (objects st1 commandOptions))))
        (taskProcessEnds env) (buildSubmitted extraArgs commandOptions st1))),
      snd (onDidEndTaskProcess
        (onDidEndTaskProcess_listener env
           \<lparr>bazelExecutable = getDefaultBazelExecutablePath env,
            workingDirectory = bazelWorkspacePath (workspaceInfo (objects st1 commandOptions))\<rparr>
           (length (trace st1)) (arrays st1 (targets (objects st1 commandOptions)) ! 0)
           commandOptions (bazelWorkspacePath (workspaceInfo (objects st1 commandOptions))))
        (taskProcessEnds env) (buildSubmitted extraArgs commandOptions st1)))"
  using assms
  by (simp add: split_def Let_def buildSubmitted_def store_defs)

lemma buildSubmitted_trace:
  "trace (buildSubmitted extraArgs commandOptions st1) =
     trace st1 @
       [ExecuteTask \<lparr>command = ''build'',
          taskOptions = [''--compilation_mode'', ''dbg''] @ extraArgs,
          taskTargets =
            (if targets (objects st1 commandOptions) = fresh st1
             then [''--compilation_mode'', ''dbg''] @ extraArgs
             else arrays st1 (targets (objects st1 commandOptions))),
          taskWorkspaceInfo = workspaceInfo (objects st1 commandOptions)\<rparr>]"
  by (simp add: buildSubmitted_def store_defs)

lemma buildSubmitted_store:
  assumes "allocated st1 commandOptions"
  shows "objects (buildSubmitted extraArgs commandOptions st1) commandOptions = objects st1 commandOptions"
    and "arrays (buildSubmitted extraArgs commandOptions st1) (options (objects st1 commandOptions))
           = arrays st1 (options (objects st1 commandOptions))"
  using assms by (simp_all add: buildSubmitted_def store_defs allocated_def)

text \<open>
  C2: with an adapter given, \<^verbatim>\<open>bazelTestTarget\<close> in either mode submits one task, for the
  verb of the mode, whose options are the options of the adapter's command options, each
  prefixed with \<^verbatim>\<open>--test_arg=\<close>, followed by the extra flags as they are.
\<close>

theorem bazelTestTarget_wraps_then_appends:
  "\<exists>task st'.
     bazelTestTarget (Some adapter) mode extraArgs env st = (Inr Returned, st')
     \<and> trace st' = trace (snd (adapter st)) @ [ExecuteTask task]
     \<and> command task = modeName mode
     \<and> taskOptions task =
         map (\<lambda>opt. ''--test_arg='' @ opt)
           (arrays (snd (adapter st)) (options (objects (snd (adapter st)) (fst (adapter st)))))
         @ extraArgs"
  by (simp add: split_def Let_def store_defs testArg_def)

text \<open>
  C3: when the command options of the adapter do not hold exactly one target,
  \<^verbatim>\<open>bazelDebugTestTarget\<close> fails with \<open>InvalidInvocation\<close> in the state that the adapter left:
  no task is created or submitted and no query is made.
\<close>

theorem bazelDebugTestTarget_target_count:
  assumes "adapter st = (commandOptions, st1)"
    and "length (arrays st1 (targets (objects st1 commandOptions))) \<noteq> 1"
  shows "bazelDebugTestTarget (Some adapter) extraArgs env st = (Inl InvalidInvocation, st1)"
  using assms by (simp add: InvalidInvocation_def)

theorem bazelDebugTestTarget_target_count_witness:
  "length (arrays noTargetsState (targets (objects noTargetsState 12))) \<noteq> 1
   \<and> bazelDebugTestTarget (Some (returnsObject 12)) [] exampleEnv noTargetsState
       = (Inl InvalidInvocation, noTargetsState)
   \<and> length (arrays twoTargetsState (targets (objects twoTargetsState 12))) \<noteq> 1
   \<and> bazelDebugTestTarget (Some (returnsObject 12)) [] exampleEnv twoTargetsState
       = (Inl InvalidInvocation, twoTargetsState)"
proof -
  have r: "returnsObject 12 s = (12, s)" for s by (simp add: returnsObject_def)
  have h0: "length (arrays noTargetsState (targets (objects noTargetsState 12))) \<noteq> 1"
    by (simp add: noTargetsState_def exampleState_def)
  have h2: "length (arrays twoTargetsState (targets (objects twoTargetsState 12))) \<noteq> 1"
    by (simp add: twoTargetsState_def exampleState_def)
  show ?thesis
    using h0 h2
      bazelDebugTestTarget_target_count
        [of "returnsObject 12" noTargetsState 12 noTargetsState "[]" exampleEnv, OF r h0]
      bazelDebugTestTarget_target_count
        [of "returnsObject 12" twoTargetsState 12 twoTargetsState "[]" exampleEnv, OF r h2]
    by blast
qed

text \<open>
  C4: when the first task process end event for the execution of the submitted build (the
  execution is the position of the submission in the trace) carries an exit code other
  than 0, \<^verbatim>\<open>bazelDebugTestTarget\<close> has made no call but the submission of the build, whatever
  events follow: no query and no debug launch; its promise stays unresolved.
\<close>

theorem bazelDebugTestTarget_build_failed:
  assumes "adapter st = (commandOptions, st1)"
    and "length (arrays st1 (targets (objects st1 commandOptions))) = 1"
    and "taskProcessEnds env = before @ event # after"
    and "\<forall>e \<in> set before. execution e \<noteq> length (trace st1)"
    and "execution event = length (trace st1)"
    and "exitCode event \<noteq> Some 0"
  shows "\<exists>task st'.
     bazelDebugTestTarget (Some adapter) extraArgs env st = (Inr Pending, st')
     \<and> trace st' = trace st1 @ [ExecuteTask task]"
  using assms
  by (simp add: split_def Let_def store_defs onDidEndTaskProcess_failed)

theorem bazelDebugTestTarget_build_failed_witness:
  "\<exists>task st'.
     bazelDebugTestTarget (Some (returnsObject 12)) [''--config=clang-asan''] failedBuildEnv exampleState
       = (Inr Pending, st')
     \<and> trace st' = [ExecuteTask task]"
proof -
  have r: "returnsObject 12 exampleState = (12, exampleState)" by (simp add: returnsObject_def)
  have one: "length (arrays exampleState (targets (objects exampleState 12))) = 1"
    by (simp add: exampleState_values)
  have evs: "taskProcessEnds failedBuildEnv =
      [\<lparr>execution = 7, exitCode = Some 0\<rparr>] @ \<lparr>execution = 0, exitCode = Some 1\<rparr>
        # [\<lparr>execution = 0, exitCode = Some 0\<rparr>]"
    by (simp add: failedBuildEnv_def)
  have before: "\<forall>e \<in> set [\<lparr>execution = 7, exitCode = Some 0\<rparr>]. execution e \<noteq> length (trace exampleState)"
    by (simp add: exampleState_values)
  have ex: "execution \<lparr>execution = 0, exitCode = Some 1\<rparr> = length (trace exampleState)"
    by (simp add: exampleState_values)
  have code: "exitCode \<lparr>execution = 0, exitCode = Some 1\<rparr> \<noteq> Some 0" by simp
  show ?thesis
    using bazelDebugTestTarget_build_failed
      [of "returnsObject 12" exampleState 12 exampleState failedBuildEnv
          "[\<lparr>execution = 7, exitCode = Some 0\<rparr>]" "\<lparr>execution = 0, exitCode = Some 1\<rparr>"
          "[\<lparr>execution = 0, exitCode = Some 0\<rparr>]" "[''--config=clang-asan'']",
       OF r one evs before ex code]
    by (simp only: exampleState_values append_Nil)
qed

text \<open>
  C5: in \<^verbatim>\<open>bazelDebugTestTarget\<close>, the options of the build task are
  \<^verbatim>\<open>--compilation_mode\<close>, \<^verbatim>\<open>dbg\<close> and then the extra flags, whatever the options of the adapter's
  command options are: nothing of these is passed to the build.  When the build ends with
  exit code 0 and the query gives its outputs, the debug configuration that is launched has
  the adapter's options, as they are and in their order, as its \<^verbatim>\<open>args\<close>.
\<close>

theorem bazelDebugTestTarget_options:
  assumes "adapter st = (commandOptions, st1)"
    and "length (arrays st1 (targets (objects st1 commandOptions))) = 1"
    and "allocated st1 commandOptions"
  shows "(\<exists>result st' task more.
            bazelDebugTestTarget (Some adapter) extraArgs env st = (Inr result, st')
            \<and> trace st' = trace st1 @ ExecuteTask task # more
            \<and> command task = ''build''
            \<and> taskOptions task = [''--compilation_mode'', ''dbg''] @ extraArgs
            \<and> taskTargets task = arrays st1 (targets (objects st1 commandOptions)))
      \<and> (\<forall>before event after outputs.
            taskProcessEnds env = before @ event # after
            \<and> (\<forall>e \<in> set before. execution e \<noteq> length (trace st1))
            \<and> execution event = length (trace st1)
            \<and> exitCode event = Some 0
            \<and> queryOutputs env (getDefaultBazelExecutablePath env)
                 (bazelWorkspacePath (workspaceInfo (objects st1 commandOptions)))
                 (arrays st1 (targets (objects st1 commandOptions)) ! 0)
                 (Some [''--compilation_mode'', ''dbg'']) = Inr outputs
            \<longrightarrow> (\<exists>st' task query folder config.
                  bazelDebugTestTarget (Some adapter) extraArgs env st = (Inr Resolved, st')
                  \<and> trace st' = trace st1 @ [ExecuteTask task, query, StartDebugging folder config]
                  \<and> taskOptions task = [''--compilation_mode'', ''dbg''] @ extraArgs
                  \<and> program config = index outputs 0
                  \<and> args config = arrays st1 (options (objects st1 commandOptions))))"
proof (intro conjI allI impI)
  let ?query = "\<lparr>bazelExecutable = getDefaultBazelExecutablePath env,
            workingDirectory = bazelWorkspacePath (workspaceInfo (objects st1 commandOptions))\<rparr>"
  let ?listener = "onDidEndTaskProcess_listener env ?query
           (length (trace st1)) (arrays st1 (targets (objects st1 commandOptions)) ! 0)
           commandOptions (bazelWorkspacePath (workspaceInfo (objects st1 commandOptions)))"
  let ?st4 = "buildSubmitted extraArgs commandOptions st1"
  note unfold = bazelDebugTestTarget_Some [of adapter st commandOptions st1 extraArgs env, OF assms(1,2)]
  from assms(3) have fresh: "targets (objects st1 commandOptions) \<noteq> fresh st1"
    by (simp add: allocated_def)
  obtain result st5 where run: "onDidEndTaskProcess ?listener (taskProcessEnds env) ?st4 = (result, st5)"
    by (metis prod.exhaust)
  from onDidEndTaskProcess_store [OF run] obtain more where "trace st5 = trace ?st4 @ more"
    by blast
  with fresh have "trace st5 = trace st1 @
       ExecuteTask \<lparr>command = ''build'',
          taskOptions = [''--compilation_mode'', ''dbg''] @ extraArgs,
          taskTargets = arrays st1 (targets (objects st1 commandOptions)),
          taskWorkspaceInfo = workspaceInfo (objects st1 commandOptions)\<rparr> # more"
    by (simp add: buildSubmitted_trace)
  moreover from unfold run have "bazelDebugTestTarget (Some adapter) extraArgs env st = (Inr result, st5)"
    by simp
  ultimately show "\<exists>result st' task more.
            bazelDebugTestTarget (Some adapter) extraArgs env st = (Inr result, st')
            \<and> trace st' = trace st1 @ ExecuteTask task # more
            \<and> command task = ''build''
            \<and> taskOptions task = [''--compilation_mode'', ''dbg''] @ extraArgs
            \<and> taskTargets task = arrays st1 (targets (objects st1 commandOptions))"
    by force
next
  fix before event after outputs
  let ?query = "\<lparr>bazelExecutable = getDefaultBazelExecutablePath env,
            workingDirectory = bazelWorkspacePath (workspaceInfo (objects st1 commandOptions))\<rparr>"
  let ?st4 = "buildSubmitted extraArgs commandOptions st1"
  assume h: "taskProcessEnds env = before @ event # after
            \<and> (\<forall>e \<in> set before. execution e \<noteq> length (trace st1))
            \<and> execution event = length (trace st1)
            \<and> exitCode event = Some 0
            \<and> queryOutputs env (getDefaultBazelExecutablePath env)
                 (bazelWorkspacePath (workspaceInfo (objects st1 commandOptions)))
                 (arrays st1 (targets (objects st1 commandOptions)) ! 0)
                 (Some [''--compilation_mode'', ''dbg'']) = Inr outputs"
  note unfold = bazelDebugTestTarget_Some [of adapter st commandOptions st1 extraArgs env, OF assms(1,2)]
  from h have q: "queryOutputs env (bazelExecutable ?query) (workingDirectory ?query)
                 (arrays st1 (targets (objects st1 commandOptions)) ! 0)
                 (Some [''--compilation_mode'', ''dbg'']) = Inr outputs"
    by simp
  from h have b: "\<forall>e \<in> set before. execution e \<noteq> length (trace st1)"
    and e: "execution event = length (trace st1)" and x: "exitCode event = Some 0"
    and evs: "taskProcessEnds env = before @ event # after"
    by simp_all
  note run = onDidEndTaskProcess_succeeded [OF b e x q, of commandOptions
      "bazelWorkspacePath (workspaceInfo (objects st1 commandOptions))" after ?st4]
  show "\<exists>st' task query folder config.
                  bazelDebugTestTarget (Some adapter) extraArgs env st = (Inr Resolved, st')
                  \<and> trace st' = trace st1 @ [ExecuteTask task, query, StartDebugging folder config]
                  \<and> taskOptions task = [''--compilation_mode'', ''dbg''] @ extraArgs
                  \<and> program config = index outputs 0
                  \<and> args config = arrays st1 (options (objects st1 commandOptions))"
    unfolding unfold evs run
    by (simp add: buildSubmitted_trace buildSubmitted_store [OF assms(3)])
qed

theorem bazelDebugTestTarget_options_witness:
  "allocated exampleState 12
   \<and> (\<exists>st' task query folder config.
         bazelDebugTestTarget (Some (returnsObject 12)) [''--config=clang-asan''] succeededBuildEnv
           exampleState = (Inr Resolved, st')
         \<and> trace st' = [ExecuteTask task, query, StartDebugging folder config]
         \<and> taskOptions task = [''--compilation_mode'', ''dbg'', ''--config=clang-asan'']
         \<and> program config = Some ''/w/bazel-bin/x/y''
         \<and> args config = [''--foo''])"
proof -
  have r: "returnsObject 12 exampleState = (12, exampleState)" by (simp add: returnsObject_def)
  have one: "length (arrays exampleState (targets (objects exampleState 12))) = 1"
    by (simp add: exampleState_values)
  have al: "allocated exampleState 12" by (simp add: allocated_def exampleState_def)
  have evs: "taskProcessEnds succeededBuildEnv = [] @ \<lparr>execution = 0, exitCode = Some 0\<rparr> # []"
    by (simp add: succeededBuildEnv_def)
  have before: "\<forall>e \<in> set []. execution e \<noteq> length (trace exampleState)" by simp
  have ex: "execution \<lparr>execution = 0, exitCode = Some 0\<rparr> = length (trace exampleState)"
    by (simp add: exampleState_values)
  have code: "exitCode \<lparr>execution = 0, exitCode = Some 0\<rparr> = Some 0" by simp
  have q: "queryOutputs succeededBuildEnv (getDefaultBazelExecutablePath succeededBuildEnv)
             (bazelWorkspacePath (workspaceInfo (objects exampleState 12)))
             (arrays exampleState (targets (objects exampleState 12)) ! 0)
             (Some [''--compilation_mode'', ''dbg'']) = Inr [''/w/bazel-bin/x/y'']"
    by (simp add: succeededBuildEnv_def)
  have "\<exists>st' task query folder config.
         bazelDebugTestTarget (Some (returnsObject 12)) [''--config=clang-asan''] succeededBuildEnv
           exampleState = (Inr Resolved, st')
         \<and> trace st' = trace exampleState @ [ExecuteTask task, query, StartDebugging folder config]
         \<and> taskOptions task = [''--compilation_mode'', ''dbg''] @ [''--config=clang-asan'']
         \<and> program config = index [''/w/bazel-bin/x/y''] 0
         \<and> args config = arrays exampleState (options (objects exampleState 12))"
    using bazelDebugTestTarget_options
      [of "returnsObject 12" exampleState 12 exampleState "[''--config=clang-asan'']"
          succeededBuildEnv, OF r one al]
      evs before ex code q
    by blast
  then have "\<exists>st' task query folder config.
         bazelDebugTestTarget (Some (returnsObject 12)) [''--config=clang-asan''] succeededBuildEnv
           exampleState = (Inr Resolved, st')
         \<and> trace st' = [ExecuteTask task, query, StartDebugging folder config]
         \<and> taskOptions task = [''--compilation_mode'', ''dbg'', ''--config=clang-asan'']
         \<and> program config = Some ''/w/bazel-bin/x/y''
         \<and> args config = [''--foo'']"
    by (simp add: exampleState_values index_def del: bazelDebugTestTarget.simps)
  with al show ?thesis by blast
qed

text \<open>
  C6: for every suffix (so for \<^verbatim>\<open>:all\<close> and \<^verbatim>\<open>/...\<close>), \<^verbatim>\<open>buildPackage\<close> and \<^verbatim>\<open>testPackage\<close>
  submit a task for the options of the adapter's command options and for its targets with
  the suffix appended to each; the options object of the adapter and its two arrays are
  what they were; and done twice for the same options object, both submit the same task
  twice.
\<close>

theorem package_suffix_transform:
  assumes "adapter st = (commandOptions, st1)" and "allocated st1 commandOptions"
  shows "(\<exists>st'. buildPackage suffix (Some adapter) env st = (Inr Returned, st')
       \<and> trace st' = trace st1 @
           [ExecuteTask \<lparr>command = ''build'',
              taskOptions = arrays st1 (options (objects st1 commandOptions)),
              taskTargets = map (\<lambda>s. s @ suffix) (arrays st1 (targets (objects st1 commandOptions))),
              taskWorkspaceInfo = workspaceInfo (objects st1 commandOptions)\<rparr>]
       \<and> objects st' commandOptions = objects st1 commandOptions
       \<and> arrays st' (options (objects st1 commandOptions)) = arrays st1 (options (objects st1 commandOptions))
       \<and> arrays st' (targets (objects st1 commandOptions)) = arrays st1 (targets (objects st1 commandOptions)))
    \<and> (\<exists>st'. testPackage suffix (Some adapter) mode env st = (Inr Returned, st')
       \<and> trace st' = trace st1 @
           [ExecuteTask \<lparr>command = modeName mode,
              taskOptions = arrays st1 (options (objects st1 commandOptions)),
              taskTargets = map (\<lambda>s. s @ suffix) (arrays st1 (targets (objects st1 commandOptions))),
              taskWorkspaceInfo = workspaceInfo (objects st1 commandOptions)\<rparr>]
       \<and> objects st' commandOptions = objects st1 commandOptions
       \<and> arrays st' (options (objects st1 commandOptions)) = arrays st1 (options (objects st1 commandOptions))
       \<and> arrays st' (targets (objects st1 commandOptions)) = arrays st1 (targets (objects st1 commandOptions)))
    \<and> (\<exists>task.
         trace (snd (buildPackage suffix (Some (returnsObject commandOptions)) env
                  (snd (buildPackage suffix (Some (returnsObject commandOptions)) env st1))))
           = trace st1 @ [ExecuteTask task, ExecuteTask task])
    \<and> (\<exists>task.
         trace (snd (testPackage suffix (Some (returnsObject commandOptions)) mode env
                  (snd (testPackage suffix (Some (returnsObject commandOptions)) mode env st1))))
           = trace st1 @ [ExecuteTask task, ExecuteTask task])"
proof -
  have ret: "returnsObject commandOptions s = (commandOptions, s)" for s
    by (simp add: returnsObject_def)
  note b1 = buildPackage_Some [of adapter st commandOptions st1 suffix env, OF assms]
  note t1 = testPackage_Some [of adapter st commandOptions st1 suffix mode env, OF assms]
  obtain sb where sb: "buildPackage suffix (Some (returnsObject commandOptions)) env st1 = (Inr Returned, sb)"
      "trace sb = trace st1 @
         [ExecuteTask \<lparr>command = ''build'',
            taskOptions = arrays st1 (options (objects st1 commandOptions)),
            taskTargets = map (\<lambda>s. s @ suffix) (arrays st1 (targets (objects st1 commandOptions))),
            taskWorkspaceInfo = workspaceInfo (objects st1 commandOptions)\<rparr>]"
      "objects sb commandOptions = objects st1 commandOptions"
      "arrays sb (options (objects st1 commandOptions)) = arrays st1 (options (objects st1 commandOptions))"
      "arrays sb (targets (objects st1 commandOptions)) = arrays st1 (targets (objects st1 commandOptions))"
      "allocated sb commandOptions"
    using buildPackage_Some [of "returnsObject commandOptions" st1 commandOptions st1 suffix env, OF ret assms(2)] by blast
  obtain sb' where sb': "buildPackage suffix (Some (returnsObject commandOptions)) env sb = (Inr Returned, sb')"
      "trace sb' = trace sb @
         [ExecuteTask \<lparr>command = ''build'',
            taskOptions = arrays sb (options (objects sb commandOptions)),
            taskTargets = map (\<lambda>s. s @ suffix) (arrays sb (targets (objects sb commandOptions))),
            taskWorkspaceInfo = workspaceInfo (objects sb commandOptions)\<rparr>]"
    using buildPackage_Some [of "returnsObject commandOptions" sb commandOptions sb suffix env, OF ret sb(6)] by blast
  have twice_b: "\<exists>task.
         trace (snd (buildPackage suffix (Some (returnsObject commandOptions)) env
                  (snd (buildPackage suffix (Some (returnsObject commandOptions)) env st1))))
           = trace st1 @ [ExecuteTask task, ExecuteTask task]"
    using sb sb' by simp
  obtain sc where sc: "testPackage suffix (Some (returnsObject commandOptions)) mode env st1 = (Inr Returned, sc)"
      "trace sc = trace st1 @
         [ExecuteTask \<lparr>command = modeName mode,
            taskOptions = arrays st1 (options (objects st1 commandOptions)),
            taskTargets = map (\<lambda>s. s @ suffix) (arrays st1 (targets (objects st1 commandOptions))),
            taskWorkspaceInfo = workspaceInfo (objects st1 commandOptions)\<rparr>]"
      "objects sc commandOptions = objects st1 commandOptions"
      "arrays sc (options (objects st1 commandOptions)) = arrays st1 (options (objects st1 commandOptions))"
      "arrays sc (targets (objects st1 commandOptions)) = arrays st1 (targets (objects st1 commandOptions))"
      "allocated sc commandOptions"
    using testPackage_Some [of "returnsObject commandOptions" st1 commandOptions st1 suffix mode env, OF ret assms(2)] by blast
  obtain sc' where sc': "testPackage suffix (Some (returnsObject commandOptions)) mode env sc = (Inr Returned, sc')"
      "trace sc' = trace sc @
         [ExecuteTask \<lparr>command = modeName mode,
            taskOptions = arrays sc (options (objects sc commandOptions)),
            taskTargets = map (\<lambda>s. s @ suffix) (arrays sc (targets (objects sc commandOptions))),
            taskWorkspaceInfo = workspaceInfo (objects sc commandOptions)\<rparr>]"
    using testPackage_Some [of "returnsObject commandOptions" sc commandOptions sc suffix mode env, OF ret sc(6)] by blast
  have twice_t: "\<exists>task.
         trace (snd (testPackage suffix (Some (returnsObject commandOptions)) mode env
                  (snd (testPackage suffix (Some (returnsObject commandOptions)) mode env st1))))
           = trace st1 @ [ExecuteTask task, ExecuteTask task]"
    using sc sc' by simp
  from b1 t1 twice_b twice_t show ?thesis by blast
qed

theorem package_suffix_transform_witness:
  "returnsObject 12 exampleState = (12, exampleState) \<and> allocated exampleState 12
   \<and> (\<exists>st'. buildPackage '':all'' (Some (returnsObject 12)) exampleEnv exampleState = (Inr Returned, st')
        \<and> trace st' =
           [ExecuteTask \<lparr>command = ''build'', taskOptions = [''--foo''],
              taskTargets = [''//x:y:all''], taskWorkspaceInfo = exampleWorkspace\<rparr>]
        \<and> arrays st' 11 = [''//x:y''])"
proof -
  have h1: "returnsObject 12 exampleState = (12, exampleState)" by (simp add: returnsObject_def)
  have h2: "allocated exampleState 12" by (simp add: allocated_def exampleState_def)
  have vals: "arrays exampleState (options (objects exampleState 12)) = [''--foo'']"
    "arrays exampleState (targets (objects exampleState 12)) = [''//x:y'']"
    "workspaceInfo (objects exampleState 12) = exampleWorkspace"
    "targets (objects exampleState 12) = 11"
    "arrays exampleState 11 = [''//x:y'']"
    "trace exampleState = []"
    by (simp_all add: exampleState_def)
  obtain st' where
    "buildPackage '':all'' (Some (returnsObject 12)) exampleEnv exampleState = (Inr Returned, st')"
    "trace st' = trace exampleState @
       [ExecuteTask \<lparr>command = ''build'',
          taskOptions = arrays exampleState (options (objects exampleState 12)),
          taskTargets = map (\<lambda>s. s @ '':all'') (arrays exampleState (targets (objects exampleState 12))),
          taskWorkspaceInfo = workspaceInfo (objects exampleState 12)\<rparr>]"
    "arrays st' (targets (objects exampleState 12)) = arrays exampleState (targets (objects exampleState 12))"
    using package_suffix_transform
      [of "returnsObject 12" exampleState 12 exampleState "'':all''" exampleEnv Test, OF h1 h2]
    by blast
  then have "buildPackage '':all'' (Some (returnsObject 12)) exampleEnv exampleState = (Inr Returned, st')
      \<and> trace st' =
           [ExecuteTask \<lparr>command = ''build'', taskOptions = [''--foo''],
              taskTargets = [''//x:y:all''], taskWorkspaceInfo = exampleWorkspace\<rparr>]
      \<and> arrays st' 11 = [''//x:y'']"
    by (simp add: vals del: buildPackage.simps)
  with h1 h2 show ?thesis by blast
qed

text \<open>
  C7 does not hold of \<^verbatim>\<open>bazelTestTarget\<close>, which assigns to the \<^verbatim>\<open>options\<close> field of the object
  that the adapter returned.  For the options \<^verbatim>\<open>{options: ["--foo"], targets: ["//x:y"]}\<close> and
  the extra flag \<^verbatim>\<open>--config=clang-asan\<close>: the options of the object are \<^verbatim>\<open>["--foo"]\<close> before
  the call and \<^verbatim>\<open>["--test_arg=--foo", "--config=clang-asan"]\<close> after it, and a second call for
  the same object wraps them once more.
\<close>

theorem bazelTestTarget_overwrites_options:
  "arrays exampleState (options (objects exampleState 12)) = [''--foo'']
   \<and> arrays (snd (bazelTestTarget (Some (returnsObject 12)) Test [''--config=clang-asan'']
                 exampleEnv exampleState))
       (options (objects (snd (bazelTestTarget (Some (returnsObject 12)) Test
                  [''--config=clang-asan''] exampleEnv exampleState)) 12))
     = [''--test_arg=--foo'', ''--config=clang-asan'']
   \<and> map (\<lambda>ev. case ev of ExecuteTask task \<Rightarrow> taskOptions task | _ \<Rightarrow> [])
       (trace (snd (bazelTestTarget (Some (returnsObject 12)) Test [''--config=clang-asan''] exampleEnv
          (snd (bazelTestTarget (Some (returnsObject 12)) Test [''--config=clang-asan'']
                  exampleEnv exampleState)))))
     = [[''--test_arg=--foo'', ''--config=clang-asan''],
        [''--test_arg=--test_arg=--foo'', ''--test_arg=--config=clang-asan'',
         ''--config=clang-asan'']]"
  by (simp add: split_def Let_def store_defs testArg_def returnsObject_def exampleState_def)

text \<open>
  C9: when \<^verbatim>\<open>bazelTestTarget\<close> or \<^verbatim>\<open>bazelDebugTestTarget\<close> is called without an adapter and the
  user picks a target, the function calls itself for the picked target with no extra flags,
  whatever extra flags it was called with: the test task has the wrapped options of the
  picked target as its options and nothing more, and the build task of the debug flow has
  \<^verbatim>\<open>--compilation_mode\<close>, \<^verbatim>\<open>dbg\<close> and nothing more.
\<close>

theorem palette_reinvocation_drops_extraArgs:
  assumes "showQuickPick env (queryQuickPickTargets ''kind('.*_test rule', ...)'') = Some quickPick"
    and "quickPick (emit (ShowQuickPick (queryQuickPickTargets ''kind('.*_test rule', ...)'')) st)
           = (commandOptions, st1)"
  shows "bazelTestTarget None mode extraArgs env st =
           bazelTestTarget (Some quickPick) mode [] env
             (emit (ShowQuickPick (queryQuickPickTargets ''kind('.*_test rule', ...)'')) st)
    \<and> bazelDebugTestTarget None extraArgs env st =
           awaitThenReturn (bazelDebugTestTarget (Some quickPick) [] env
             (emit (ShowQuickPick (queryQuickPickTargets ''kind('.*_test rule', ...)'')) st))
    \<and> (\<exists>task st'.
          bazelTestTarget None mode extraArgs env st = (Inr Returned, st')
          \<and> trace st' = trace st1 @ [ExecuteTask task]
          \<and> command task = modeName mode
          \<and> taskOptions task =
              map (\<lambda>opt. ''--test_arg='' @ opt) (arrays st1 (options (objects st1 commandOptions))))
    \<and> (length (arrays st1 (targets (objects st1 commandOptions))) = 1 \<longrightarrow>
         (\<exists>task more.
            trace (snd (bazelDebugTestTarget None extraArgs env st)) = trace st1 @ ExecuteTask task # more
            \<and> command task = ''build''
            \<and> taskOptions task = [''--compilation_mode'', ''dbg'']))"
proof (intro conjI impI)
  let ?st0 = "emit (ShowQuickPick (queryQuickPickTargets ''kind('.*_test rule', ...)'')) st"
  obtain st' where inner: "bazelTestTarget (Some quickPick) mode [] env ?st0 = (Inr Returned, st')"
    by (simp add: split_def Let_def)
  have step: "bazelTestTarget None mode extraArgs env st =
      awaitThenReturn (bazelTestTarget (Some quickPick) mode [] env ?st0)"
    using assms(1) by (simp add: Let_def del: bazelTestTarget.simps(2))
  show test: "bazelTestTarget None mode extraArgs env st =
      bazelTestTarget (Some quickPick) mode [] env ?st0"
    by (simp only: step inner awaitThenReturn_Returned)
  show debug: "bazelDebugTestTarget None extraArgs env st =
      awaitThenReturn (bazelDebugTestTarget (Some quickPick) [] env ?st0)"
    using assms(1) by (simp add: Let_def del: bazelDebugTestTarget.simps(2))
  show "\<exists>task st'.
          bazelTestTarget None mode extraArgs env st = (Inr Returned, st')
          \<and> trace st' = trace st1 @ [ExecuteTask task]
          \<and> command task = modeName mode
          \<and> taskOptions task =
              map (\<lambda>opt. ''--test_arg='' @ opt) (arrays st1 (options (objects st1 commandOptions)))"
    unfolding test using assms(2)
    by (simp add: split_def Let_def store_defs testArg_def)
  assume one: "length (arrays st1 (targets (objects st1 commandOptions))) = 1"
  let ?query = "\<lparr>bazelExecutable = getDefaultBazelExecutablePath env,
            workingDirectory = bazelWorkspacePath (workspaceInfo (objects st1 commandOptions))\<rparr>"
  let ?listener = "onDidEndTaskProcess_listener env ?query
           (length (trace st1)) (arrays st1 (targets (objects st1 commandOptions)) ! 0)
           commandOptions (bazelWorkspacePath (workspaceInfo (objects st1 commandOptions)))"
  let ?st4 = "buildSubmitted [] commandOptions st1"
  note unfold = bazelDebugTestTarget_Some [of quickPick ?st0 commandOptions st1 "[]" env, OF assms(2) one]
  obtain result st5 where run: "onDidEndTaskProcess ?listener (taskProcessEnds env) ?st4 = (result, st5)"
    by (metis prod.exhaust)
  from onDidEndTaskProcess_store [OF run] obtain more where "trace st5 = trace ?st4 @ more"
    by blast
  then have "\<exists>task. trace st5 = trace st1 @ ExecuteTask task # more
      \<and> command task = ''build'' \<and> taskOptions task = [''--compilation_mode'', ''dbg'']"
    by (simp add: buildSubmitted_trace)
  moreover have "snd (bazelDebugTestTarget None extraArgs env st) = st5"
    unfolding debug awaitThenReturn_snd unfold run by simp
  ultimately show "\<exists>task more.
            trace (snd (bazelDebugTestTarget None extraArgs env st)) = trace st1 @ ExecuteTask task # more
            \<and> command task = ''build''
            \<and> taskOptions task = [''--compilation_mode'', ''dbg'']"
    by blast
qed

theorem palette_reinvocation_drops_extraArgs_witness:
  "showQuickPick quickPickEnv (queryQuickPickTargets ''kind('.*_test rule', ...)'')
     = Some (returnsObject 12)
   \<and> (\<exists>task st'.
         bazelTestTarget None Test [''--compilation_mode=dbg'', ''--config=clang-asan'']
           quickPickEnv exampleState = (Inr Returned, st')
         \<and> trace st' =
             [ShowQuickPick (queryQuickPickTargets ''kind('.*_test rule', ...)''), ExecuteTask task]
         \<and> command task = ''test''
         \<and> taskOptions task = [''--test_arg=--foo''])
   \<and> (\<exists>task more.
         trace (snd (bazelDebugTestTarget None [''--config=clang-asan''] quickPickEnv exampleState))
           = ShowQuickPick (queryQuickPickTargets ''kind('.*_test rule', ...)'')
             # ExecuteTask task # more
         \<and> command task = ''build''
         \<and> taskOptions task = [''--compilation_mode'', ''dbg''])"
proof -
  let ?items = "queryQuickPickTargets ''kind('.*_test rule', ...)''"
  let ?st1 = "emit (ShowQuickPick ?items) exampleState"
  have pick: "showQuickPick quickPickEnv ?items = Some (returnsObject 12)"
    by (simp add: quickPickEnv_def)
  have r: "returnsObject 12 ?st1 = (12, ?st1)" by (simp add: returnsObject_def)
  have vals: "arrays ?st1 (options (objects ?st1 12)) = [''--foo'']"
    "length (arrays ?st1 (targets (objects ?st1 12))) = 1"
    "trace ?st1 = [ShowQuickPick ?items]"
    by (simp_all add: emit_def exampleState_def)
  note t = palette_reinvocation_drops_extraArgs
      [of quickPickEnv "returnsObject 12" exampleState 12 ?st1 Test
          "[''--compilation_mode=dbg'', ''--config=clang-asan'']", OF pick r]
  note d = palette_reinvocation_drops_extraArgs
      [of quickPickEnv "returnsObject 12" exampleState 12 ?st1 Test
          "[''--config=clang-asan'']", OF pick r]
  have "\<exists>task st'.
         bazelTestTarget None Test [''--compilation_mode=dbg'', ''--config=clang-asan'']
           quickPickEnv exampleState = (Inr Returned, st')
         \<and> trace st' = trace ?st1 @ [ExecuteTask task]
         \<and> command task = modeName Test
         \<and> taskOptions task = map (\<lambda>opt. ''--test_arg='' @ opt) (arrays ?st1 (options (objects ?st1 12)))"
    using t by blast
  then have test: "\<exists>task st'.
         bazelTestTarget None Test [''--compilation_mode=dbg'', ''--config=clang-asan'']
           quickPickEnv exampleState = (Inr Returned, st')
         \<and> trace st' = [ShowQuickPick ?items, ExecuteTask task]
         \<and> command task = ''test''
         \<and> taskOptions task = [''--test_arg=--foo'']"
    by (simp add: vals del: bazelTestTarget.simps)
  have "\<exists>task more.
         trace (snd (bazelDebugTestTarget None [''--config=clang-asan''] quickPickEnv exampleState))
           = trace ?st1 @ ExecuteTask task # more
         \<and> command task = ''build''
         \<and> taskOptions task = [''--compilation_mode'', ''dbg'']"
    using d vals(2) by blast
  then have debug: "\<exists>task more.
         trace (snd (bazelDebugTestTarget None [''--config=clang-asan''] quickPickEnv exampleState))
           = ShowQuickPick ?items # ExecuteTask task # more
         \<and> command task = ''build''
         \<and> taskOptions task = [''--compilation_mode'', ''dbg'']"
    by (simp add: vals del: bazelDebugTestTarget.simps)
  from pick test debug show ?thesis by blast
qed

section \<open>Properties of the children of a target\<close>

text \<open>
  C10: when the query of \<^verbatim>\<open>getChildren\<close> succeeds, the result is the empty list if the number
  of outputs is not one, and the empty list if running the test binary fails; and a result
  that is a non-empty list comes from one output whose test binary ran, and is what the
  parser makes of its standard output.
\<close>

theorem getChildren_cases:
  assumes "queryOutputs env (getDefaultBazelExecutablePath env)
             (bazelWorkspacePath (itemWorkspaceInfo this)) (rule_name (target this)) None
           = Inr outputs"
  shows "(length outputs \<noteq> 1 \<longrightarrow> getChildren this env = Inr (Some []))
    \<and> (\<forall>e. length outputs = 1
          \<and> execFile env (outputs ! 0) [''--gtest_list_tests'']
              (bazelWorkspacePath (itemWorkspaceInfo this)) (500 * 1024) = Inl e
          \<longrightarrow> getChildren this env = Inr (Some []))
    \<and> (\<forall>child children. getChildren this env = Inr (Some (child # children))
          \<longrightarrow> length outputs = 1
            \<and> (\<exists>stdout. execFile env (outputs ! 0) [''--gtest_list_tests'']
                  (bazelWorkspacePath (itemWorkspaceInfo this)) (500 * 1024) = Inr stdout
                \<and> parseGtestList this stdout = Inr (child # children)))"
  using assms
  by (auto simp: getChildren_def truthy_def split: sum.splits if_splits)

theorem getChildren_cases_witness:
  "getChildren exampleTarget twoOutputsEnv = Inr (Some [])
   \<and> getChildren exampleTarget execFailsEnv = Inr (Some [])
   \<and> getChildren exampleTarget listingEnv =
       Inr (Some [BazelGTestTreeItem () exampleWorkspace
                    \<lparr>rule_name = ''//x:y'', rule_ruleClass = ''cc_test''\<rparr> ''Case1'' None])
   \<and> parseGtestList exampleTarget ''  Case1'' =
       Inr [BazelGTestTreeItem () exampleWorkspace
              \<lparr>rule_name = ''//x:y'', rule_ruleClass = ''cc_test''\<rparr> ''Case1'' None]"
proof -
  let ?child = "BazelGTestTreeItem () exampleWorkspace
                    \<lparr>rule_name = ''//x:y'', rule_ruleClass = ''cc_test''\<rparr> ''Case1'' None"
  have q2: "queryOutputs twoOutputsEnv (getDefaultBazelExecutablePath twoOutputsEnv)
             (bazelWorkspacePath (itemWorkspaceInfo exampleTarget)) (rule_name (target exampleTarget)) None
           = Inr [''/w/a'', ''/w/b'']"
    by (simp add: twoOutputsEnv_def)
  have two: "getChildren exampleTarget twoOutputsEnv = Inr (Some [])"
    using getChildren_cases [OF q2] by simp
  have qf: "queryOutputs execFailsEnv (getDefaultBazelExecutablePath execFailsEnv)
             (bazelWorkspacePath (itemWorkspaceInfo exampleTarget)) (rule_name (target exampleTarget)) None
           = Inr [''/w/a'']"
    by (simp add: execFailsEnv_def)
  have ef: "execFile execFailsEnv ([''/w/a''] ! 0) [''--gtest_list_tests'']
              (bazelWorkspacePath (itemWorkspaceInfo exampleTarget)) (500 * 1024) = Inl (Error ''ENOENT'')"
    by (simp add: execFailsEnv_def)
  have fails: "getChildren exampleTarget execFailsEnv = Inr (Some [])"
    using getChildren_cases [OF qf] ef by simp
  have ql: "queryOutputs listingEnv (getDefaultBazelExecutablePath listingEnv)
             (bazelWorkspacePath (itemWorkspaceInfo exampleTarget)) (rule_name (target exampleTarget)) None
           = Inr [''/w/a'']"
    by (simp add: listingEnv_def)
  have listing: "getChildren exampleTarget listingEnv = Inr (Some [?child])"
    by (simp add: getChildren_def listingEnv_def exampleEnv_def truthy_def parseGtestList_def
        parseGtestLine_def startsWith_def index_def trim_def isWhiteSpace_def exampleTarget_def)
  have "\<exists>stdout. execFile listingEnv ([''/w/a''] ! 0) [''--gtest_list_tests'']
                  (bazelWorkspacePath (itemWorkspaceInfo exampleTarget)) (500 * 1024) = Inr stdout
                \<and> parseGtestList exampleTarget stdout = Inr [?child]"
    using getChildren_cases [OF ql] listing by blast
  then have parsed: "parseGtestList exampleTarget ''  Case1'' = Inr [?child]"
    by (simp add: listingEnv_def)
  from two fails listing parsed show ?thesis by blast
qed

end
